theory Spec2Isabelle
  imports Complex_Main
begin

section \<open>Payroll reconciliation engine (reconciliation\_engine.py)\<close>

text \<open>
  A shallow embedding of \<^verbatim>\<open>PayrollReconciliationEngine\<close>.

  Numbers. The amounts in the tables are float64 values, and a float64 value is modelled
  by the rational number it denotes. Every arithmetic operation of the engine rounds its
  exact result to the nearest float64 value, ties to the even significand (\<open>fl\<close> below),
  as IEEE 754 arithmetic does; comparisons and absolute values are exact. Infinities, NaN,
  signed zeros and overflow beyond the float64 range are outside the model. An integer
  column is covered as long as its sums stay below \<open>2 ^ 53\<close>, where integer and float64
  arithmetic agree.

  Sums. \<^verbatim>\<open>Series.sum()\<close> adds the float64 values of a column in an order that pandas and
  NumPy choose and that is no part of this repository. The model therefore takes the
  summation as a parameter \<open>ssum\<close>, a function from the list of values to their float64
  sum, and every property below holds for every such function. The sample runs use
  \<open>py_sum\<close>, addition from left to right; every order of additions gives the same sums
  on the sample tables, whose columns have at most two values or add without rounding.

  Tables. A pandas DataFrame is a list of column names together with a list of typed
  rows; reading a column whose name is not in the list raises \<^verbatim>\<open>KeyError(name)\<close>, as
  \<^verbatim>\<open>df['name']\<close> does. The rows carry the columns the engine reads; the other columns of
  the input contract (Employee\_ID, Period, ...) occur only as names. Cells have the type
  of their column: amounts are numbers, account codes and cost centers are strings; tables
  with cells of another type, or with missing values, are outside the model.

  Effects. Every check is a function from the engine state to an error or the updated
  engine state; the state that a raising call leaves behind is not kept.
\<close>

subsection \<open>float64 arithmetic\<close>

text \<open>Rounding to the nearest integer, ties to the even one (C's \<^verbatim>\<open>rint\<close>).\<close>

definition round_half_even :: "rat \<Rightarrow> int" where
  "round_half_even y =
     (let f = \<lfloor>y\<rfloor>; d = y - of_int f
      in if d < 1 / 2 then f else if 1 / 2 < d then f + 1 else if even f then f else f + 1)"

text \<open>The number of binary digits of a positive integer.\<close>

function bit_length :: "int \<Rightarrow> int" where
  "bit_length n = (if n \<le> 0 then 0 else 1 + bit_length (n div 2))"
  by pat_completeness auto
termination
  by (relation "measure nat") auto

declare bit_length.simps [simp del]

definition pow2 :: "int \<Rightarrow> rat" where
  "pow2 e = (if 0 \<le> e then 2 ^ nat e else 1 / 2 ^ nat (- e))"

text \<open>The binary exponent of a positive number \<open>y\<close>: \<open>pow2 e \<le> y < pow2 (e + 1)\<close>.\<close>

definition exponent :: "rat \<Rightarrow> int" where
  "exponent y = (if 1 \<le> y then bit_length \<lfloor>y\<rfloor> - 1 else - bit_length (\<lceil>1 / y\<rceil> - 1))"

text \<open>
  The float64 value nearest to \<open>x\<close>: a significand of 53 binary digits, ties to the even
  significand, and the fixed spacing \<open>pow2 (- 1074)\<close> in the subnormal range.
\<close>

definition fl :: "rat \<Rightarrow> rat" where
  "fl x =
     (if x = 0 then 0
      else let e = max (exponent \<bar>x\<bar> - 52) (- 1074)
           in sgn x * of_int (round_half_even (\<bar>x\<bar> / pow2 e)) * pow2 e)"

definition fadd :: "rat \<Rightarrow> rat \<Rightarrow> rat" where
  "fadd a b = fl (a + b)"

definition fsub :: "rat \<Rightarrow> rat \<Rightarrow> rat" where
  "fsub a b = fl (a - b)"

definition fmul :: "rat \<Rightarrow> rat \<Rightarrow> rat" where
  "fmul a b = fl (a * b)"

definition fdiv :: "rat \<Rightarrow> rat \<Rightarrow> rat" where
  "fdiv a b = fl (a / b)"

text \<open>The literal \<^verbatim>\<open>0.01\<close> of the tolerance tests: the float64 value nearest to 1/100.\<close>

definition tolerance :: rat where
  "tolerance = fl (1 / 100)"

text \<open>
  \<^verbatim>\<open>round(x, 2)\<close> on a NumPy float64 scalar, which is what \<^verbatim>\<open>Series.sum()\<close> and the
  arithmetic on its results return: NumPy multiplies by 100.0, rounds to the nearest
  integer with ties to even, and divides by 100.0, each step in float64.
\<close>

definition round2 :: "rat \<Rightarrow> rat" where
  "round2 x = fdiv (of_int (round_half_even (fmul x 100))) 100"

text \<open>
  Python's built-in \<^verbatim>\<open>sum\<close> over a list of NumPy float64 scalars: float64 addition from
  left to right, starting from 0.
\<close>

definition py_sum :: "rat list \<Rightarrow> rat" where
  "py_sum xs = foldl fadd 0 xs"

text \<open>The summation of \<^verbatim>\<open>Series.sum()\<close>, a parameter of the model.\<close>

type_synonym summation = "rat list \<Rightarrow> rat"

subsection \<open>Tables\<close>

datatype error = KeyError string

record payroll_row =
  p_Cost_Center :: string
  Overtime :: rat
  Bonus :: rat
  Gross_Pay :: rat
  Pension_Deduction :: rat
  Total_Deductions :: rat
  Net_Pay :: rat
  Employer_Pension_Contribution :: rat
  Employer_Benefits :: rat

record gl_row =
  GL_Account :: string
  g_Cost_Center :: string
  Debit :: rat
  Credit :: rat

record 'r frame =
  columns :: "string list"
  rows :: "'r list"

text \<open>\<^verbatim>\<open>df[name]\<close>: the column as a list of values, or KeyError.\<close>

definition col :: "'r frame \<Rightarrow> string \<Rightarrow> ('r \<Rightarrow> 'a) \<Rightarrow> error + 'a list" where
  "col df name field =
     (if name \<in> set (columns df) then Inr (map field (rows df)) else Inl (KeyError name))"

text \<open>\<^verbatim>\<open>df[mask]\<close>: the rows whose mask entry is true, with the same columns.\<close>

definition select :: "'r frame \<Rightarrow> bool list \<Rightarrow> 'r frame" where
  "select df keep = df\<lparr>rows := map fst (filter snd (zip (rows df) keep))\<rparr>"

text \<open>Sequencing of computations that may raise.\<close>

definition bnd :: "error + 'a \<Rightarrow> ('a \<Rightarrow> error + 'b) \<Rightarrow> error + 'b" where
  "bnd m f = (case m of Inl err \<Rightarrow> Inl err | Inr x \<Rightarrow> f x)"

text \<open>
  The expression \<^verbatim>\<open>df[test(df['GL_Account'])][name].sum()\<close>, which the checks repeat
  for accounts 6100, 1010, 2110, 6120, 6130 and for the set 2110, 2120, 2130.
\<close>

definition account_sum ::
  "summation \<Rightarrow> gl_row frame \<Rightarrow> (string \<Rightarrow> bool) \<Rightarrow> string \<Rightarrow> (gl_row \<Rightarrow> rat) \<Rightarrow> error + rat" where
  "account_sum ssum df test name field =
     bnd (col df ''GL_Account'' GL_Account) (\<lambda>accounts.
     bnd (col (select df (map test accounts)) name field) (\<lambda>xs.
     Inr (ssum xs)))"

text \<open>\<^verbatim>\<open>df[name].sum()\<close>.\<close>

definition column_sum :: "summation \<Rightarrow> 'r frame \<Rightarrow> string \<Rightarrow> ('r \<Rightarrow> rat) \<Rightarrow> error + rat" where
  "column_sum ssum df name field = bnd (col df name field) (\<lambda>xs. Inr (ssum xs))"

text \<open>\<^verbatim>\<open>Series.unique()\<close>: the distinct values in order of first appearance.\<close>

fun unique_from :: "'a list \<Rightarrow> 'a list \<Rightarrow> 'a list" where
  "unique_from seen [] = []"
| "unique_from seen (x # xs) =
     (if x \<in> set seen then unique_from seen xs else x # unique_from (x # seen) xs)"

definition unique :: "'a list \<Rightarrow> 'a list" where
  "unique xs = unique_from [] xs"

subsection \<open>Formatting\<close>

definition digit_char :: "nat \<Rightarrow> char" where
  "digit_char d = ''0123456789'' ! (d mod 10)"

fun str_nat :: "nat \<Rightarrow> string" where
  "str_nat n = (if n < 10 then [digit_char n] else str_nat (n div 10) @ [digit_char (n mod 10)])"

declare str_nat.simps [simp del]

text \<open>
  \<^verbatim>\<open>f'{x:.2f}'\<close>: the decimal expansion of the value that the float64 \<open>x\<close> denotes,
  correctly rounded to two decimals with ties to even.
\<close>

definition format_2f :: "rat \<Rightarrow> string" where
  "format_2f x =
     (let n = nat \<bar>round_half_even (x * 100)\<bar>
      in (if x < 0 then ''-'' else '''') @ str_nat (n div 100) @ ''.'' @
         [digit_char (n mod 100 div 10), digit_char (n mod 10)])"

subsection \<open>Records of the report and the engine state\<close>

record variance_record =
  Type :: string
  Payroll_Amount :: rat
  GL_Amount :: rat
  Variance :: rat
  Severity :: string

record flag_record =
  Category :: string
  Issue :: string
  Impact :: string
  Action :: string

record engine =
  payroll_df :: "payroll_row frame"
  gl_df :: "gl_row frame"
  variances :: "variance_record list"
  flags :: "flag_record list"

record summary_record =
  Total_Variances :: nat
  High_Severity_Count :: nat
  Total_Variance_Amount :: rat
  Total_Flags :: nat
  Reconciliation_Status :: string

record report =
  summary :: summary_record
  variance_df :: "variance_record frame"
  flags_df :: "flag_record frame"

text \<open>\<^verbatim>\<open>__init__\<close>: the two tables as given, both accumulators empty.\<close>

definition init :: "payroll_row frame \<Rightarrow> gl_row frame \<Rightarrow> engine" where
  "init payroll gl = \<lparr>payroll_df = payroll, gl_df = gl, variances = [], flags = []\<rparr>"

text \<open>\<^verbatim>\<open>self.variances.append(v)\<close> and \<^verbatim>\<open>self.flags.append(f)\<close>.\<close>

definition append_variance :: "variance_record \<Rightarrow> engine \<Rightarrow> engine" where
  "append_variance v self = self\<lparr>variances := variances self @ [v]\<rparr>"

definition append_flag :: "flag_record \<Rightarrow> engine \<Rightarrow> engine" where
  "append_flag f self = self\<lparr>flags := flags self @ [f]\<rparr>"

text \<open>
  The two accumulators are separate lists, so the state after two appends does not tell
  which came first. Where the order of the calls matters, a method is given as the list
  of its append calls in program order, and \<open>run\<close> performs them one after the other.
\<close>

datatype append_call = Append_Flag flag_record | Append_Variance variance_record

fun perform :: "engine \<Rightarrow> append_call \<Rightarrow> engine" where
  "perform self (Append_Flag f) = append_flag f self"
| "perform self (Append_Variance v) = append_variance v self"

definition run :: "append_call list \<Rightarrow> engine \<Rightarrow> engine" where
  "run calls self = foldl perform self calls"

subsection \<open>The five checks\<close>

definition check_totals :: "summation \<Rightarrow> engine \<Rightarrow> error + engine" where
  "check_totals ssum self =
     bnd (column_sum ssum (payroll_df self) ''Gross_Pay'' Gross_Pay) (\<lambda>total_gross.
     bnd (column_sum ssum (payroll_df self) ''Net_Pay'' Net_Pay) (\<lambda>total_net.
     bnd (column_sum ssum (payroll_df self) ''Total_Deductions'' Total_Deductions)
       (\<lambda>total_deductions.
     bnd (account_sum ssum (gl_df self) (\<lambda>a. a = ''6100'') ''Debit'' Debit)
       (\<lambda>gl_salary_expense.
     bnd (account_sum ssum (gl_df self) (\<lambda>a. a = ''1010'') ''Credit'' Credit)
       (\<lambda>gl_cash_payout.
     bnd (account_sum ssum (gl_df self) (\<lambda>a. a \<in> set [''2110'', ''2120'', ''2130''])
            ''Credit'' Credit)
       (\<lambda>gl_total_liabilities.
     let gross_variance = fsub total_gross gl_salary_expense;
         net_variance = fsub total_net gl_cash_payout;
         deduction_variance = fsub total_deductions gl_total_liabilities;
         s1 = (if \<bar>gross_variance\<bar> > tolerance
               then append_variance
                 \<lparr>Type = ''Gross Pay Variance'',
                  Payroll_Amount = round2 total_gross,
                  GL_Amount = round2 gl_salary_expense,
                  Variance = round2 gross_variance,
                  Severity = (if \<bar>gross_variance\<bar> > 100 then ''High'' else ''Medium'')\<rparr> self
               else self);
         s2 = (if \<bar>net_variance\<bar> > tolerance
               then append_variance
                 \<lparr>Type = ''Net Pay Variance'',
                  Payroll_Amount = round2 total_net,
                  GL_Amount = round2 gl_cash_payout,
                  Variance = round2 net_variance,
                  Severity = ''High''\<rparr> s1
               else s1);
         s3 = (if \<bar>deduction_variance\<bar> > tolerance
               then append_variance
                 \<lparr>Type = ''Total Deductions Variance'',
                  Payroll_Amount = round2 total_deductions,
                  GL_Amount = round2 gl_total_liabilities,
                  Variance = round2 deduction_variance,
                  Severity = ''Medium''\<rparr> s2
               else s2)
     in Inr s3))))))"

definition check_pension_deductions :: "summation \<Rightarrow> engine \<Rightarrow> error + engine" where
  "check_pension_deductions ssum self =
     bnd (column_sum ssum (payroll_df self) ''Pension_Deduction'' Pension_Deduction)
       (\<lambda>payroll_pension.
     bnd (account_sum ssum (gl_df self) (\<lambda>a. a = ''2110'') ''Credit'' Credit)
       (\<lambda>gl_pension_payable.
     let pension_variance = fsub payroll_pension gl_pension_payable;
         s1 = (if \<bar>pension_variance\<bar> > tolerance
               then append_variance
                 \<lparr>Type = ''Pension Deduction Variance'',
                  Payroll_Amount = round2 payroll_pension,
                  GL_Amount = round2 gl_pension_payable,
                  Variance = round2 pension_variance,
                  Severity = ''High''\<rparr> self
               else self)
     in
     bnd (column_sum ssum (payroll_df s1) ''Employer_Pension_Contribution''
            Employer_Pension_Contribution) (\<lambda>payroll_employer_pension.
     bnd (account_sum ssum (gl_df s1) (\<lambda>a. a = ''6120'') ''Debit'' Debit)
       (\<lambda>gl_employer_pension.
     let employer_variance = fsub payroll_employer_pension gl_employer_pension
     in Inr (if \<bar>employer_variance\<bar> > tolerance
             then append_flag
                 \<lparr>Category = ''Pension'',
                  Issue = ''Employer pension contribution not fully accrued in GL'',
                  Impact = ''Understated expense by $'' @ format_2f \<bar>employer_variance\<bar>,
                  Action = ''Post accrual adjustment before month-end close''\<rparr>
               (append_variance
                 \<lparr>Type = ''Employer Pension Contribution Variance'',
                  Payroll_Amount = round2 payroll_employer_pension,
                  GL_Amount = round2 gl_employer_pension,
                  Variance = round2 employer_variance,
                  Severity = ''High''\<rparr> s1)
             else s1)))))"

text \<open>
  The benefit-accruals check, as the list of its append calls in program order (the flag
  at line 114 of the source, then the variance at line 121), and as the state they leave.
\<close>

definition benefit_accruals_calls :: "summation \<Rightarrow> engine \<Rightarrow> error + append_call list" where
  "benefit_accruals_calls ssum self =
     bnd (column_sum ssum (payroll_df self) ''Employer_Benefits'' Employer_Benefits)
       (\<lambda>payroll_employer_benefits.
     bnd (account_sum ssum (gl_df self) (\<lambda>a. a = ''6130'') ''Debit'' Debit)
       (\<lambda>gl_benefits_expense.
     let benefits_variance = fsub payroll_employer_benefits gl_benefits_expense
     in Inr (if \<bar>benefits_variance\<bar> > tolerance
             then [Append_Flag
                     \<lparr>Category = ''Benefits Accrual'',
                      Issue = ''Missing or incomplete employer benefit accruals'',
                      Impact = ''Understated expense by $'' @ format_2f \<bar>benefits_variance\<bar>,
                      Action = ''Review and post missing benefit accrual entries''\<rparr>,
                   Append_Variance
                     \<lparr>Type = ''Employer Benefits Variance'',
                      Payroll_Amount = round2 payroll_employer_benefits,
                      GL_Amount = round2 gl_benefits_expense,
                      Variance = round2 benefits_variance,
                      Severity = ''High''\<rparr>]
             else [])))"

definition check_benefit_accruals :: "summation \<Rightarrow> engine \<Rightarrow> error + engine" where
  "check_benefit_accruals ssum self =
     bnd (benefit_accruals_calls ssum self) (\<lambda>calls. Inr (run calls self))"

definition check_retro_adjustments :: "engine \<Rightarrow> error + engine" where
  "check_retro_adjustments self =
     bnd (col (payroll_df self) ''Bonus'' Bonus) (\<lambda>bonus.
     let high_bonus = select (payroll_df self) (map (\<lambda>b. b > 1000) bonus) in
     bnd (col (payroll_df self) ''Overtime'' Overtime) (\<lambda>overtime.
     let high_overtime = select (payroll_df self) (map (\<lambda>h. h > 400) overtime);
         s1 = (if length (rows high_bonus) > 0
               then append_flag
                 \<lparr>Category = ''Retro Adjustment'',
                  Issue = str_nat (length (rows high_bonus)) @
                          '' employees with high bonuses (>$1,000)'',
                  Impact = ''Potential retroactive pay adjustments'',
                  Action = ''Verify if bonuses relate to prior periods and adjust accruals''\<rparr>
                 self
               else self)
     in Inr (if length (rows high_overtime) > 0
             then append_flag
                 \<lparr>Category = ''Retro Adjustment'',
                  Issue = str_nat (length (rows high_overtime)) @
                          '' employees with high overtime (>$400)'',
                  Impact = ''May indicate prior period corrections'',
                  Action = ''Review for proper period allocation''\<rparr> s1
             else s1)))"

text \<open>The body of the loop over cost centers, and the loop.\<close>

definition cost_center_step :: "summation \<Rightarrow> engine \<Rightarrow> string \<Rightarrow> error + engine" where
  "cost_center_step ssum self cost_center =
     bnd (col (payroll_df self) ''Cost_Center'' p_Cost_Center) (\<lambda>pcc.
     let cc_payroll = select (payroll_df self) (map (\<lambda>c. c = cost_center) pcc) in
     bnd (col (gl_df self) ''Cost_Center'' g_Cost_Center) (\<lambda>gcc.
     let cc_gl = select (gl_df self) (map (\<lambda>c. c = cost_center) gcc) in
     bnd (column_sum ssum cc_payroll ''Gross_Pay'' Gross_Pay) (\<lambda>payroll_gross.
     bnd (account_sum ssum cc_gl (\<lambda>a. a = ''6100'') ''Debit'' Debit) (\<lambda>gl_expense.
     let variance = fsub payroll_gross gl_expense
     in Inr (if \<bar>variance\<bar> > tolerance
             then append_variance
                 \<lparr>Type = ''Cost Center '' @ cost_center @ '' Variance'',
                  Payroll_Amount = round2 payroll_gross,
                  GL_Amount = round2 gl_expense,
                  Variance = round2 variance,
                  Severity = ''Medium''\<rparr> self
             else self)))))"

fun cost_center_loop :: "summation \<Rightarrow> engine \<Rightarrow> string list \<Rightarrow> error + engine" where
  "cost_center_loop ssum self [] = Inr self"
| "cost_center_loop ssum self (cost_center # rest) =
     bnd (cost_center_step ssum self cost_center) (\<lambda>self'. cost_center_loop ssum self' rest)"

definition validate_cost_center_balancing :: "summation \<Rightarrow> engine \<Rightarrow> error + engine" where
  "validate_cost_center_balancing ssum self =
     bnd (col (payroll_df self) ''Cost_Center'' p_Cost_Center) (\<lambda>pcc.
     cost_center_loop ssum self (unique pcc))"

subsection \<open>Report and main process\<close>

text \<open>
  \<^verbatim>\<open>pd.DataFrame(records)\<close> of a non-empty list of dicts has the dicts' keys as
  columns; \<^verbatim>\<open>pd.DataFrame()\<close> has neither columns nor rows.
\<close>

definition generate_report :: "engine \<Rightarrow> report" where
  "generate_report self =
     (let variance_df =
            (if variances self \<noteq> []
             then \<lparr>columns = [''Type'', ''Payroll_Amount'', ''GL_Amount'', ''Variance'', ''Severity''],
                   rows = variances self\<rparr>
             else \<lparr>columns = [], rows = []\<rparr>);
          flags_df =
            (if flags self \<noteq> []
             then \<lparr>columns = [''Category'', ''Issue'', ''Impact'', ''Action''], rows = flags self\<rparr>
             else \<lparr>columns = [], rows = []\<rparr>);
          total_variances = length (variances self);
          high_severity = length (filter (\<lambda>v. Severity v = ''High'') (variances self));
          total_variance_amount = py_sum (map (\<lambda>v. \<bar>Variance v\<bar>) (variances self))
      in \<lparr>summary =
            \<lparr>Total_Variances = total_variances,
             High_Severity_Count = high_severity,
             Total_Variance_Amount = round2 total_variance_amount,
             Total_Flags = length (flags self),
             Reconciliation_Status = (if total_variances > 0 then ''FAILED'' else ''PASSED'')\<rparr>,
          variance_df = variance_df,
          flags_df = flags_df\<rparr>)"

text \<open>
  \<^verbatim>\<open>reconcile\<close> returns the report; the engine state after the call is returned with
  it, since the accumulators stay on the instance.
\<close>

definition reconcile :: "summation \<Rightarrow> engine \<Rightarrow> error + (report \<times> engine)" where
  "reconcile ssum self =
     bnd (check_totals ssum self) (\<lambda>s1.
     bnd (check_pension_deductions ssum s1) (\<lambda>s2.
     bnd (check_benefit_accruals ssum s2) (\<lambda>s3.
     bnd (check_retro_adjustments s3) (\<lambda>s4.
     bnd (validate_cost_center_balancing ssum s4) (\<lambda>s5.
     Inr (generate_report s5, s5))))))"

subsection \<open>What the checks compute, as functions of the two tables\<close>

text \<open>
  The properties below speak about the sums that the checks compare. These are the same
  sums written directly over the rows: a column total of the payroll table, the total of a
  GL column over the rows of some accounts, and the two sums of one cost center.
\<close>

definition payroll_total :: "summation \<Rightarrow> (payroll_row \<Rightarrow> rat) \<Rightarrow> payroll_row frame \<Rightarrow> rat" where
  "payroll_total ssum field p = ssum (map field (rows p))"

definition gl_total ::
  "summation \<Rightarrow> (string \<Rightarrow> bool) \<Rightarrow> (gl_row \<Rightarrow> rat) \<Rightarrow> gl_row frame \<Rightarrow> rat" where
  "gl_total ssum test field g =
     ssum (map field (filter (\<lambda>r. test (GL_Account r)) (rows g)))"

definition cc_payroll_gross :: "summation \<Rightarrow> string \<Rightarrow> payroll_row frame \<Rightarrow> rat" where
  "cc_payroll_gross ssum cc p =
     ssum (map Gross_Pay (filter (\<lambda>r. p_Cost_Center r = cc) (rows p)))"

definition cc_gl_expense :: "summation \<Rightarrow> string \<Rightarrow> gl_row frame \<Rightarrow> rat" where
  "cc_gl_expense ssum cc g =
     ssum (map Debit (filter (\<lambda>r. GL_Account r = ''6100'')
       (filter (\<lambda>r. g_Cost_Center r = cc) (rows g))))"

text \<open>
  One comparison: the variance record that a check builds from the two sums, and the list
  a comparison contributes (that record when the float64 difference exceeds the
  tolerance, nothing otherwise).
\<close>

definition variance_of :: "string \<Rightarrow> rat \<Rightarrow> rat \<Rightarrow> string \<Rightarrow> variance_record" where
  "variance_of ty pa ga sev =
     \<lparr>Type = ty, Payroll_Amount = round2 pa, GL_Amount = round2 ga,
      Variance = round2 (fsub pa ga), Severity = sev\<rparr>"

definition compare :: "string \<Rightarrow> rat \<Rightarrow> rat \<Rightarrow> string \<Rightarrow> variance_record list" where
  "compare ty pa ga sev = (if tolerance < \<bar>fsub pa ga\<bar> then [variance_of ty pa ga sev] else [])"

text \<open>
  The records each check appends, as lists that depend on the tables only. Lemmas
  \<open>check_totals_ok\<close>, \<open>check_pension_deductions_ok\<close>, \<open>check_benefit_accruals_ok\<close>,
  \<open>check_retro_adjustments_ok\<close> and \<open>validate_cost_center_balancing_ok\<close> prove that each
  check, when it does not raise, appends exactly these lists to the accumulators.
\<close>

definition totals_variances ::
  "summation \<Rightarrow> payroll_row frame \<Rightarrow> gl_row frame \<Rightarrow> variance_record list" where
  "totals_variances ssum p g =
     compare ''Gross Pay Variance''
       (payroll_total ssum Gross_Pay p) (gl_total ssum (\<lambda>a. a = ''6100'') Debit g)
       (if 100 < \<bar>fsub (payroll_total ssum Gross_Pay p)
                       (gl_total ssum (\<lambda>a. a = ''6100'') Debit g)\<bar>
        then ''High'' else ''Medium'') @
     compare ''Net Pay Variance''
       (payroll_total ssum Net_Pay p) (gl_total ssum (\<lambda>a. a = ''1010'') Credit g) ''High'' @
     compare ''Total Deductions Variance''
       (payroll_total ssum Total_Deductions p)
       (gl_total ssum (\<lambda>a. a \<in> set [''2110'', ''2120'', ''2130'']) Credit g) ''Medium''"

definition pension_variances ::
  "summation \<Rightarrow> payroll_row frame \<Rightarrow> gl_row frame \<Rightarrow> variance_record list" where
  "pension_variances ssum p g =
     compare ''Pension Deduction Variance''
       (payroll_total ssum Pension_Deduction p) (gl_total ssum (\<lambda>a. a = ''2110'') Credit g)
       ''High'' @
     compare ''Employer Pension Contribution Variance''
       (payroll_total ssum Employer_Pension_Contribution p)
       (gl_total ssum (\<lambda>a. a = ''6120'') Debit g) ''High''"

definition pension_flags ::
  "summation \<Rightarrow> payroll_row frame \<Rightarrow> gl_row frame \<Rightarrow> flag_record list" where
  "pension_flags ssum p g =
     (let d = fsub (payroll_total ssum Employer_Pension_Contribution p)
                   (gl_total ssum (\<lambda>a. a = ''6120'') Debit g)
      in if tolerance < \<bar>d\<bar>
         then [\<lparr>Category = ''Pension'',
                Issue = ''Employer pension contribution not fully accrued in GL'',
                Impact = ''Understated expense by $'' @ format_2f \<bar>d\<bar>,
                Action = ''Post accrual adjustment before month-end close''\<rparr>]
         else [])"

definition benefits_variances ::
  "summation \<Rightarrow> payroll_row frame \<Rightarrow> gl_row frame \<Rightarrow> variance_record list" where
  "benefits_variances ssum p g =
     compare ''Employer Benefits Variance''
       (payroll_total ssum Employer_Benefits p) (gl_total ssum (\<lambda>a. a = ''6130'') Debit g)
       ''High''"

definition benefits_flags ::
  "summation \<Rightarrow> payroll_row frame \<Rightarrow> gl_row frame \<Rightarrow> flag_record list" where
  "benefits_flags ssum p g =
     (let d = fsub (payroll_total ssum Employer_Benefits p)
                   (gl_total ssum (\<lambda>a. a = ''6130'') Debit g)
      in if tolerance < \<bar>d\<bar>
         then [\<lparr>Category = ''Benefits Accrual'',
                Issue = ''Missing or incomplete employer benefit accruals'',
                Impact = ''Understated expense by $'' @ format_2f \<bar>d\<bar>,
                Action = ''Review and post missing benefit accrual entries''\<rparr>]
         else [])"

definition retro_flags :: "payroll_row frame \<Rightarrow> flag_record list" where
  "retro_flags p =
     (let nb = length (filter (\<lambda>r. 1000 < Bonus r) (rows p));
          no = length (filter (\<lambda>r. 400 < Overtime r) (rows p))
      in (if 0 < nb
          then [\<lparr>Category = ''Retro Adjustment'',
                 Issue = str_nat nb @ '' employees with high bonuses (>$1,000)'',
                 Impact = ''Potential retroactive pay adjustments'',
                 Action = ''Verify if bonuses relate to prior periods and adjust accruals''\<rparr>]
          else []) @
         (if 0 < no
          then [\<lparr>Category = ''Retro Adjustment'',
                 Issue = str_nat no @ '' employees with high overtime (>$400)'',
                 Impact = ''May indicate prior period corrections'',
                 Action = ''Review for proper period allocation''\<rparr>]
          else []))"

definition cost_center_label :: "string \<Rightarrow> string" where
  "cost_center_label cc = ''Cost Center '' @ cc @ '' Variance''"

definition cost_center_variances ::
  "summation \<Rightarrow> payroll_row frame \<Rightarrow> gl_row frame \<Rightarrow> string list \<Rightarrow> variance_record list" where
  "cost_center_variances ssum p g ccs =
     concat (map (\<lambda>cc. compare (cost_center_label cc)
                          (cc_payroll_gross ssum cc p) (cc_gl_expense ssum cc g) ''Medium'') ccs)"

definition new_variances ::
  "summation \<Rightarrow> payroll_row frame \<Rightarrow> gl_row frame \<Rightarrow> variance_record list" where
  "new_variances ssum p g =
     totals_variances ssum p g @ pension_variances ssum p g @ benefits_variances ssum p g @
     cost_center_variances ssum p g (unique (map p_Cost_Center (rows p)))"

definition new_flags ::
  "summation \<Rightarrow> payroll_row frame \<Rightarrow> gl_row frame \<Rightarrow> flag_record list" where
  "new_flags ssum p g = pension_flags ssum p g @ benefits_flags ssum p g @ retro_flags p"

text \<open>
  The columns each check reads. The loop over cost centers reads its columns once per
  cost center, so it reads none but the payroll Cost\_Center column when the payroll table
  has no rows.
\<close>

definition totals_columns :: "payroll_row frame \<Rightarrow> gl_row frame \<Rightarrow> bool" where
  "totals_columns p g \<longleftrightarrow>
     set [''Gross_Pay'', ''Net_Pay'', ''Total_Deductions''] \<subseteq> set (columns p) \<and>
     set [''GL_Account'', ''Debit'', ''Credit''] \<subseteq> set (columns g)"

definition pension_columns :: "payroll_row frame \<Rightarrow> gl_row frame \<Rightarrow> bool" where
  "pension_columns p g \<longleftrightarrow>
     set [''Pension_Deduction'', ''Employer_Pension_Contribution''] \<subseteq> set (columns p) \<and>
     set [''GL_Account'', ''Debit'', ''Credit''] \<subseteq> set (columns g)"

definition benefits_columns :: "payroll_row frame \<Rightarrow> gl_row frame \<Rightarrow> bool" where
  "benefits_columns p g \<longleftrightarrow>
     ''Employer_Benefits'' \<in> set (columns p) \<and>
     set [''GL_Account'', ''Debit''] \<subseteq> set (columns g)"

definition retro_columns :: "payroll_row frame \<Rightarrow> bool" where
  "retro_columns p \<longleftrightarrow> set [''Bonus'', ''Overtime''] \<subseteq> set (columns p)"

definition step_columns :: "payroll_row frame \<Rightarrow> gl_row frame \<Rightarrow> bool" where
  "step_columns p g \<longleftrightarrow>
     set [''Cost_Center'', ''Gross_Pay''] \<subseteq> set (columns p) \<and>
     set [''Cost_Center'', ''GL_Account'', ''Debit''] \<subseteq> set (columns g)"

definition balancing_columns :: "payroll_row frame \<Rightarrow> gl_row frame \<Rightarrow> bool" where
  "balancing_columns p g \<longleftrightarrow>
     ''Cost_Center'' \<in> set (columns p) \<and> (rows p = [] \<or> step_columns p g)"

text \<open>
  All columns that some check reads, per table; \<open>columns_readable\<close> holds when every
  read of a run finds its column, and \<open>unreadable c\<close> when \<open>c\<close> is a column that is read
  from a table that lacks it.
\<close>

definition payroll_columns_read :: "string list" where
  "payroll_columns_read =
     [''Gross_Pay'', ''Net_Pay'', ''Total_Deductions'', ''Pension_Deduction'',
      ''Employer_Pension_Contribution'', ''Employer_Benefits'', ''Bonus'', ''Overtime'',
      ''Cost_Center'']"

definition gl_columns_read :: "string list" where
  "gl_columns_read = [''GL_Account'', ''Debit'', ''Credit'', ''Cost_Center'']"

definition columns_readable :: "payroll_row frame \<Rightarrow> gl_row frame \<Rightarrow> bool" where
  "columns_readable p g \<longleftrightarrow>
     set payroll_columns_read \<subseteq> set (columns p) \<and>
     set [''GL_Account'', ''Debit'', ''Credit''] \<subseteq> set (columns g) \<and>
     (rows p = [] \<or> ''Cost_Center'' \<in> set (columns g))"

definition unreadable :: "string \<Rightarrow> payroll_row frame \<Rightarrow> gl_row frame \<Rightarrow> bool" where
  "unreadable c p g \<longleftrightarrow>
     c \<in> set payroll_columns_read \<and> c \<notin> set (columns p) \<or>
     c \<in> set gl_columns_read \<and> c \<notin> set (columns g)"

subsection \<open>Sample tables\<close>

text \<open>
  The required columns of the input contract, as section 6 of the specification lists them.
  The engine holds no such list; the sample tables carry these columns. A decimal amount
  \<open>d\<close> in a table is the float64 value \<open>fl d\<close>; amounts written without \<open>fl\<close> are float64
  values themselves.
\<close>

definition payroll_required_columns :: "string list" where
  "payroll_required_columns =
     [''Employee_ID'', ''Employee_Name'', ''Department'', ''Cost_Center'', ''Base_Salary'',
      ''Overtime'', ''Bonus'', ''Gross_Pay'', ''Pension_Deduction'', ''Health_Insurance'',
      ''Tax_Deduction'', ''Total_Deductions'', ''Net_Pay'', ''Employer_Pension_Contribution'',
      ''Employer_Benefits'', ''Period'']"

definition gl_required_columns :: "string list" where
  "gl_required_columns =
     [''GL_Account'', ''Account_Description'', ''Cost_Center'', ''Debit'', ''Credit'',
      ''Posting_Date'']"

definition ex_payroll :: "payroll_row frame" where
  "ex_payroll =
     \<lparr>columns = payroll_required_columns,
      rows =
        [\<lparr>p_Cost_Center = ''CC1001'', Overtime = 450, Bonus = 1500, Gross_Pay = 6950,
          Pension_Deduction = 695 / 2, Total_Deductions = 1640, Net_Pay = 5310,
          Employer_Pension_Contribution = 417, Employer_Benefits = 200\<rparr>,
         \<lparr>p_Cost_Center = ''CC1002'', Overtime = 0, Bonus = 0, Gross_Pay = 4000,
          Pension_Deduction = 200, Total_Deductions = 1050, Net_Pay = 2950,
          Employer_Pension_Contribution = 240, Employer_Benefits = 160\<rparr>]\<rparr>"

definition ex_gl :: "gl_row frame" where
  "ex_gl =
     \<lparr>columns = gl_required_columns,
      rows =
        [\<lparr>GL_Account = ''6100'', g_Cost_Center = ''CC1001'', Debit = 6950, Credit = 0\<rparr>,
         \<lparr>GL_Account = ''6100'', g_Cost_Center = ''CC1002'', Debit = 3900, Credit = 0\<rparr>,
         \<lparr>GL_Account = ''2110'', g_Cost_Center = ''CC1001'', Debit = 0, Credit = 1095 / 2\<rparr>,
         \<lparr>GL_Account = ''2120'', g_Cost_Center = ''CC1001'', Debit = 0, Credit = 450\<rparr>,
         \<lparr>GL_Account = ''2130'', g_Cost_Center = ''CC1001'', Debit = 0, Credit = 3385 / 2\<rparr>,
         \<lparr>GL_Account = ''1010'', g_Cost_Center = ''CC1001'', Debit = 0, Credit = 8260\<rparr>,
         \<lparr>GL_Account = ''6120'', g_Cost_Center = ''CC1001'', Debit = 600, Credit = 0\<rparr>]\<rparr>"

definition ex_variances :: "variance_record list" where
  "ex_variances =
     [\<lparr>Type = ''Gross Pay Variance'', Payroll_Amount = 10950, GL_Amount = 10850,
       Variance = 100, Severity = ''Medium''\<rparr>,
      \<lparr>Type = ''Employer Pension Contribution Variance'', Payroll_Amount = 657,
       GL_Amount = 600, Variance = 57, Severity = ''High''\<rparr>,
      \<lparr>Type = ''Employer Benefits Variance'', Payroll_Amount = 360, GL_Amount = 0,
       Variance = 360, Severity = ''High''\<rparr>,
      \<lparr>Type = ''Cost Center CC1002 Variance'', Payroll_Amount = 4000, GL_Amount = 3900,
       Variance = 100, Severity = ''Medium''\<rparr>]"

definition ex_flags :: "flag_record list" where
  "ex_flags =
     [\<lparr>Category = ''Pension'',
       Issue = ''Employer pension contribution not fully accrued in GL'',
       Impact = ''Understated expense by $57.00'',
       Action = ''Post accrual adjustment before month-end close''\<rparr>,
      \<lparr>Category = ''Benefits Accrual'',
       Issue = ''Missing or incomplete employer benefit accruals'',
       Impact = ''Understated expense by $360.00'',
       Action = ''Review and post missing benefit accrual entries''\<rparr>,
      \<lparr>Category = ''Retro Adjustment'',
       Issue = ''1 employees with high bonuses (>$1,000)'',
       Impact = ''Potential retroactive pay adjustments'',
       Action = ''Verify if bonuses relate to prior periods and adjust accruals''\<rparr>,
      \<lparr>Category = ''Retro Adjustment'',
       Issue = ''1 employees with high overtime (>$400)'',
       Impact = ''May indicate prior period corrections'',
       Action = ''Review for proper period allocation''\<rparr>]"

definition ex_after :: engine where
  "ex_after = \<lparr>payroll_df = ex_payroll, gl_df = ex_gl, variances = ex_variances,
                flags = ex_flags\<rparr>"

definition ex_report :: report where
  "ex_report =
     \<lparr>summary =
        \<lparr>Total_Variances = 4, High_Severity_Count = 2, Total_Variance_Amount = 617,
         Total_Flags = 4, Reconciliation_Status = ''FAILED''\<rparr>,
      variance_df =
        \<lparr>columns = [''Type'', ''Payroll_Amount'', ''GL_Amount'', ''Variance'', ''Severity''],
         rows = ex_variances\<rparr>,
      flags_df =
        \<lparr>columns = [''Category'', ''Issue'', ''Impact'', ''Action''], rows = ex_flags\<rparr>\<rparr>"

text \<open>Scenario B of the specification: an employer benefit of 800.00 with no accrual in the GL.\<close>

definition accrual_payroll :: "payroll_row frame" where
  "accrual_payroll =
     \<lparr>columns = payroll_required_columns,
      rows =
        [\<lparr>p_Cost_Center = ''CC1001'', Overtime = 0, Bonus = 0, Gross_Pay = 0,
          Pension_Deduction = 0, Total_Deductions = 0, Net_Pay = 0,
          Employer_Pension_Contribution = 0, Employer_Benefits = 800\<rparr>]\<rparr>"

definition accrual_gl :: "gl_row frame" where
  "accrual_gl = \<lparr>columns = gl_required_columns, rows = []\<rparr>"

definition accrual_variance :: variance_record where
  "accrual_variance =
     \<lparr>Type = ''Employer Benefits Variance'', Payroll_Amount = 800, GL_Amount = 0,
      Variance = 800, Severity = ''High''\<rparr>"

definition accrual_flag :: flag_record where
  "accrual_flag =
     \<lparr>Category = ''Benefits Accrual'',
      Issue = ''Missing or incomplete employer benefit accruals'',
      Impact = ''Understated expense by $800.00'',
      Action = ''Review and post missing benefit accrual entries''\<rparr>"

definition accrual_after :: engine where
  "accrual_after =
     \<lparr>payroll_df = accrual_payroll, gl_df = accrual_gl, variances = [accrual_variance],
      flags = [accrual_flag]\<rparr>"

definition accrual_after_second :: engine where
  "accrual_after_second =
     \<lparr>payroll_df = accrual_payroll, gl_df = accrual_gl,
      variances = [accrual_variance, accrual_variance],
      flags = [accrual_flag, accrual_flag]\<rparr>"

definition accrual_report :: report where
  "accrual_report =
     \<lparr>summary =
        \<lparr>Total_Variances = 1, High_Severity_Count = 1, Total_Variance_Amount = 800,
         Total_Flags = 1, Reconciliation_Status = ''FAILED''\<rparr>,
      variance_df =
        \<lparr>columns = [''Type'', ''Payroll_Amount'', ''GL_Amount'', ''Variance'', ''Severity''],
         rows = [accrual_variance]\<rparr>,
      flags_df =
        \<lparr>columns = [''Category'', ''Issue'', ''Impact'', ''Action''],
         rows = [accrual_flag]\<rparr>\<rparr>"

definition accrual_report_second :: report where
  "accrual_report_second =
     \<lparr>summary =
        \<lparr>Total_Variances = 2, High_Severity_Count = 2, Total_Variance_Amount = 1600,
         Total_Flags = 2, Reconciliation_Status = ''FAILED''\<rparr>,
      variance_df =
        \<lparr>columns = [''Type'', ''Payroll_Amount'', ''GL_Amount'', ''Variance'', ''Severity''],
         rows = [accrual_variance, accrual_variance]\<rparr>,
      flags_df =
        \<lparr>columns = [''Category'', ''Issue'', ''Impact'', ''Action''],
         rows = [accrual_flag, accrual_flag]\<rparr>\<rparr>"

text \<open>Tables with a column of the input contract left out.\<close>

definition no_id_payroll :: "payroll_row frame" where
  "no_id_payroll =
     \<lparr>columns =
        [''Employee_Name'', ''Department'', ''Cost_Center'', ''Base_Salary'', ''Overtime'',
         ''Bonus'', ''Gross_Pay'', ''Pension_Deduction'', ''Health_Insurance'',
         ''Tax_Deduction'', ''Total_Deductions'', ''Net_Pay'',
         ''Employer_Pension_Contribution'', ''Employer_Benefits'', ''Period''],
      rows = rows ex_payroll\<rparr>"

definition no_cc_payroll :: "payroll_row frame" where
  "no_cc_payroll =
     \<lparr>columns =
        [''Employee_ID'', ''Employee_Name'', ''Department'', ''Base_Salary'', ''Overtime'',
         ''Bonus'', ''Gross_Pay'', ''Pension_Deduction'', ''Health_Insurance'',
         ''Tax_Deduction'', ''Total_Deductions'', ''Net_Pay'',
         ''Employer_Pension_Contribution'', ''Employer_Benefits'', ''Period''],
      rows = rows ex_payroll\<rparr>"

definition no_cc_gl :: "gl_row frame" where
  "no_cc_gl =
     \<lparr>columns = [''GL_Account'', ''Account_Description'', ''Debit'', ''Credit'', ''Posting_Date''],
      rows = rows ex_gl\<rparr>"

definition empty_payroll :: "payroll_row frame" where
  "empty_payroll = \<lparr>columns = payroll_required_columns, rows = []\<rparr>"

definition empty_no_cc_gl :: "gl_row frame" where
  "empty_no_cc_gl =
     \<lparr>columns = [''GL_Account'', ''Account_Description'', ''Debit'', ''Credit'', ''Posting_Date''],
      rows = []\<rparr>"

definition empty_report :: report where
  "empty_report =
     \<lparr>summary =
        \<lparr>Total_Variances = 0, High_Severity_Count = 0, Total_Variance_Amount = 0,
         Total_Flags = 0, Reconciliation_Status = ''PASSED''\<rparr>,
      variance_df = \<lparr>columns = [], rows = []\<rparr>,
      flags_df = \<lparr>columns = [], rows = []\<rparr>\<rparr>"

text \<open>
  Net pay of 0.10 and total deductions of 0.20 with no GL posting: two variances whose
  float64 sum, 0.30000000000000004, is not a two-decimal amount.
\<close>

definition dimes_payroll :: "payroll_row frame" where
  "dimes_payroll =
     \<lparr>columns = payroll_required_columns,
      rows =
        [\<lparr>p_Cost_Center = ''CC1001'', Overtime = 0, Bonus = 0, Gross_Pay = 0,
          Pension_Deduction = 0, Total_Deductions = fl (2 / 10), Net_Pay = fl (1 / 10),
          Employer_Pension_Contribution = 0, Employer_Benefits = 0\<rparr>]\<rparr>"

definition dimes_variances :: "variance_record list" where
  "dimes_variances =
     [\<lparr>Type = ''Net Pay Variance'', Payroll_Amount = fl (1 / 10), GL_Amount = 0,
       Variance = fl (1 / 10), Severity = ''High''\<rparr>,
      \<lparr>Type = ''Total Deductions Variance'', Payroll_Amount = fl (2 / 10), GL_Amount = 0,
       Variance = fl (2 / 10), Severity = ''Medium''\<rparr>]"

definition dimes_after :: engine where
  "dimes_after =
     \<lparr>payroll_df = dimes_payroll, gl_df = accrual_gl, variances = dimes_variances, flags = []\<rparr>"

definition dimes_report :: report where
  "dimes_report =
     \<lparr>summary =
        \<lparr>Total_Variances = 2, High_Severity_Count = 1, Total_Variance_Amount = fl (3 / 10),
         Total_Flags = 0, Reconciliation_Status = ''FAILED''\<rparr>,
      variance_df =
        \<lparr>columns = [''Type'', ''Payroll_Amount'', ''GL_Amount'', ''Variance'', ''Severity''],
         rows = dimes_variances\<rparr>,
      flags_df = \<lparr>columns = [], rows = []\<rparr>\<rparr>"

text \<open>
  Decimal amounts exactly 0.01 apart. For 1017.82 against 1017.81 the float64 difference
  is 0.010000000000104592, above the float64 value of 0.01; for 1000.01 against 1000.00 it
  is 0.009999999999990905, below it. The penny tables put 1017.82 on the payroll side
  (gross pay and employer benefits of one cost center) and 1017.81 on the GL side
  (accounts 6100 and 6130).
\<close>

definition penny_payroll :: "payroll_row frame" where
  "penny_payroll =
     \<lparr>columns = payroll_required_columns,
      rows =
        [\<lparr>p_Cost_Center = ''CC1001'', Overtime = 0, Bonus = 0, Gross_Pay = fl (101782 / 100),
          Pension_Deduction = 0, Total_Deductions = 0, Net_Pay = 0,
          Employer_Pension_Contribution = 0, Employer_Benefits = fl (101782 / 100)\<rparr>]\<rparr>"

definition penny_gl :: "gl_row frame" where
  "penny_gl =
     \<lparr>columns = gl_required_columns,
      rows =
        [\<lparr>GL_Account = ''6100'', g_Cost_Center = ''CC1001'', Debit = fl (101781 / 100),
          Credit = 0\<rparr>,
         \<lparr>GL_Account = ''6130'', g_Cost_Center = ''CC1001'', Debit = fl (101781 / 100),
          Credit = 0\<rparr>]\<rparr>"

definition penny_gross_variance :: variance_record where
  "penny_gross_variance =
     \<lparr>Type = ''Gross Pay Variance'', Payroll_Amount = fl (101782 / 100),
      GL_Amount = fl (101781 / 100), Variance = fl (1 / 100), Severity = ''Medium''\<rparr>"

definition penny_benefits_variance :: variance_record where
  "penny_benefits_variance =
     \<lparr>Type = ''Employer Benefits Variance'', Payroll_Amount = fl (101782 / 100),
      GL_Amount = fl (101781 / 100), Variance = fl (1 / 100), Severity = ''High''\<rparr>"

definition penny_benefits_flag :: flag_record where
  "penny_benefits_flag =
     \<lparr>Category = ''Benefits Accrual'',
      Issue = ''Missing or incomplete employer benefit accruals'',
      Impact = ''Understated expense by $0.01'',
      Action = ''Review and post missing benefit accrual entries''\<rparr>"

definition penny_cost_center_variance :: variance_record where
  "penny_cost_center_variance =
     \<lparr>Type = ''Cost Center CC1001 Variance'', Payroll_Amount = fl (101782 / 100),
      GL_Amount = fl (101781 / 100), Variance = fl (1 / 100), Severity = ''Medium''\<rparr>"

definition penny_after :: engine where
  "penny_after =
     \<lparr>payroll_df = penny_payroll, gl_df = penny_gl,
      variances = [penny_gross_variance, penny_benefits_variance, penny_cost_center_variance],
      flags = [penny_benefits_flag]\<rparr>"

definition cent_payroll :: "payroll_row frame" where
  "cent_payroll =
     \<lparr>columns = payroll_required_columns,
      rows =
        [\<lparr>p_Cost_Center = ''CC1001'', Overtime = 0, Bonus = 0, Gross_Pay = fl (100001 / 100),
          Pension_Deduction = 0, Total_Deductions = 0, Net_Pay = 0,
          Employer_Pension_Contribution = 0, Employer_Benefits = 0\<rparr>]\<rparr>"

text \<open>
  A gross total of 0.01 against debits of 0.00: the float64 difference is the float64
  value of 0.01 itself.
\<close>

definition tol_payroll :: "payroll_row frame" where
  "tol_payroll =
     \<lparr>columns = payroll_required_columns,
      rows =
        [\<lparr>p_Cost_Center = ''CC1001'', Overtime = 0, Bonus = 0, Gross_Pay = fl (1 / 100),
          Pension_Deduction = 0, Total_Deductions = 0, Net_Pay = 0,
          Employer_Pension_Contribution = 0, Employer_Benefits = 0\<rparr>]\<rparr>"

definition tol_gl :: "gl_row frame" where
  "tol_gl =
     \<lparr>columns = gl_required_columns,
      rows = [\<lparr>GL_Account = ''6100'', g_Cost_Center = ''CC1001'', Debit = 0, Credit = 0\<rparr>]\<rparr>"

definition over_cent_payroll :: "payroll_row frame" where
  "over_cent_payroll =
     \<lparr>columns = payroll_required_columns,
      rows =
        [\<lparr>p_Cost_Center = ''CC1001'', Overtime = 0, Bonus = 0,
          Gross_Pay = fl (10000100001 / 10000000),
          Pension_Deduction = 0, Total_Deductions = 0, Net_Pay = 0,
          Employer_Pension_Contribution = 0, Employer_Benefits = 0\<rparr>]\<rparr>"

definition cent_gl :: "gl_row frame" where
  "cent_gl =
     \<lparr>columns = gl_required_columns,
      rows = [\<lparr>GL_Account = ''6100'', g_Cost_Center = ''CC1001'', Debit = 1000, Credit = 0\<rparr>]\<rparr>"

definition over_cent_variances :: "variance_record list" where
  "over_cent_variances =
     [\<lparr>Type = ''Gross Pay Variance'', Payroll_Amount = fl (100001 / 100), GL_Amount = 1000,
       Variance = fl (1 / 100), Severity = ''Medium''\<rparr>,
      \<lparr>Type = ''Cost Center CC1001 Variance'', Payroll_Amount = fl (100001 / 100),
       GL_Amount = 1000, Variance = fl (1 / 100), Severity = ''Medium''\<rparr>]"

definition over_cent_after :: engine where
  "over_cent_after =
     \<lparr>payroll_df = over_cent_payroll, gl_df = cent_gl, variances = over_cent_variances,
      flags = []\<rparr>"

text \<open>
  Gross pay totals against account 6100. The decimal amounts 128.02 and 28.02 are exactly
  100.00 apart, their float64 difference is 100.00000000000001. The sample payroll table
  against salary postings that are 100.01 short.
\<close>

definition hundred_payroll :: "payroll_row frame" where
  "hundred_payroll =
     \<lparr>columns = payroll_required_columns,
      rows =
        [\<lparr>p_Cost_Center = ''CC1001'', Overtime = 0, Bonus = 0, Gross_Pay = fl (12802 / 100),
          Pension_Deduction = 0, Total_Deductions = 0, Net_Pay = 0,
          Employer_Pension_Contribution = 0, Employer_Benefits = 0\<rparr>]\<rparr>"

definition hundred_gl :: "gl_row frame" where
  "hundred_gl =
     \<lparr>columns = gl_required_columns,
      rows =
        [\<lparr>GL_Account = ''6100'', g_Cost_Center = ''CC1001'', Debit = fl (2802 / 100),
          Credit = 0\<rparr>]\<rparr>"

definition hundred_high_variance :: variance_record where
  "hundred_high_variance =
     \<lparr>Type = ''Gross Pay Variance'', Payroll_Amount = fl (12802 / 100),
      GL_Amount = fl (2802 / 100), Variance = 100, Severity = ''High''\<rparr>"

definition hundred_variances :: "variance_record list" where
  "hundred_variances =
     [\<lparr>Type = ''Gross Pay Variance'', Payroll_Amount = 10950, GL_Amount = 10850,
       Variance = 100, Severity = ''Medium''\<rparr>]"

definition salary_only_gl :: "gl_row frame" where
  "salary_only_gl =
     \<lparr>columns = gl_required_columns,
      rows =
        [\<lparr>GL_Account = ''6100'', g_Cost_Center = ''CC1001'', Debit = 6950, Credit = 0\<rparr>,
         \<lparr>GL_Account = ''6100'', g_Cost_Center = ''CC1002'', Debit = fl (389999 / 100),
          Credit = 0\<rparr>]\<rparr>"

definition salary_only_variances :: "variance_record list" where
  "salary_only_variances =
     [\<lparr>Type = ''Gross Pay Variance'', Payroll_Amount = 10950,
       GL_Amount = fl (1084999 / 100), Variance = fl (10001 / 100), Severity = ''High''\<rparr>,
      \<lparr>Type = ''Net Pay Variance'', Payroll_Amount = 8260, GL_Amount = 0,
       Variance = 8260, Severity = ''High''\<rparr>,
      \<lparr>Type = ''Total Deductions Variance'', Payroll_Amount = 2690, GL_Amount = 0,
       Variance = 2690, Severity = ''Medium''\<rparr>]"

text \<open>
  Scenario C of the specification: cost center CC1 balanced, CC2 with a payroll gross of
  10000.00 against 9000.00 on account 6100; CC3 occurs in the GL table only.
\<close>

definition scenario_c_payroll :: "payroll_row frame" where
  "scenario_c_payroll =
     \<lparr>columns = payroll_required_columns,
      rows =
        [\<lparr>p_Cost_Center = ''CC1'', Overtime = 0, Bonus = 0, Gross_Pay = 3000,
          Pension_Deduction = 0, Total_Deductions = 0, Net_Pay = 0,
          Employer_Pension_Contribution = 0, Employer_Benefits = 0\<rparr>,
         \<lparr>p_Cost_Center = ''CC2'', Overtime = 0, Bonus = 0, Gross_Pay = 6000,
          Pension_Deduction = 0, Total_Deductions = 0, Net_Pay = 0,
          Employer_Pension_Contribution = 0, Employer_Benefits = 0\<rparr>,
         \<lparr>p_Cost_Center = ''CC1'', Overtime = 0, Bonus = 0, Gross_Pay = 2000,
          Pension_Deduction = 0, Total_Deductions = 0, Net_Pay = 0,
          Employer_Pension_Contribution = 0, Employer_Benefits = 0\<rparr>,
         \<lparr>p_Cost_Center = ''CC2'', Overtime = 0, Bonus = 0, Gross_Pay = 4000,
          Pension_Deduction = 0, Total_Deductions = 0, Net_Pay = 0,
          Employer_Pension_Contribution = 0, Employer_Benefits = 0\<rparr>]\<rparr>"

definition scenario_c_gl :: "gl_row frame" where
  "scenario_c_gl =
     \<lparr>columns = gl_required_columns,
      rows =
        [\<lparr>GL_Account = ''6100'', g_Cost_Center = ''CC1'', Debit = 5000, Credit = 0\<rparr>,
         \<lparr>GL_Account = ''6100'', g_Cost_Center = ''CC2'', Debit = 9000, Credit = 0\<rparr>,
         \<lparr>GL_Account = ''6100'', g_Cost_Center = ''CC3'', Debit = 500, Credit = 0\<rparr>,
         \<lparr>GL_Account = ''6120'', g_Cost_Center = ''CC1'', Debit = 700, Credit = 0\<rparr>]\<rparr>"

definition scenario_c_variances :: "variance_record list" where
  "scenario_c_variances =
     [\<lparr>Type = ''Cost Center CC2 Variance'', Payroll_Amount = 10000, GL_Amount = 9000,
       Variance = 1000, Severity = ''Medium''\<rparr>]"

section \<open>Properties\<close>

subsection \<open>Reading columns\<close>

lemma bnd_Inr [simp]: "bnd (Inr x) f = f x"
  by (simp add: bnd_def)

lemma bnd_Inl [simp]: "bnd (Inl err) f = Inl err"
  by (simp add: bnd_def)

lemma rows_select [simp]: "rows (select df (map f (rows df))) = filter f (rows df)"
proof -
  have "map fst (filter snd (zip xs (map f xs))) = filter f xs" for xs :: "'a list"
    by (induction xs) auto
  then show ?thesis by (simp add: select_def)
qed

lemma columns_select [simp]: "columns (select df keep) = columns df"
  by (simp add: select_def)

lemma column_sum_eq:
  "column_sum ssum df name field =
     (if name \<in> set (columns df) then Inr (ssum (map field (rows df)))
      else Inl (KeyError name))"
  by (simp add: column_sum_def col_def)

lemma account_sum_eq:
  "account_sum ssum df test name field =
     (if ''GL_Account'' \<notin> set (columns df) then Inl (KeyError ''GL_Account'')
      else if name \<notin> set (columns df) then Inl (KeyError name)
      else Inr (gl_total ssum test field df))"
  by (simp add: account_sum_def col_def gl_total_def comp_def)

subsection \<open>The checks when their columns are present\<close>

lemma check_totals_ok:
  assumes "totals_columns (payroll_df e) (gl_df e)"
  shows "check_totals ssum e =
           Inr (e\<lparr>variances := variances e @ totals_variances ssum (payroll_df e) (gl_df e)\<rparr>)"
  using assms
  by (simp add: check_totals_def totals_columns_def column_sum_eq account_sum_eq Let_def
      totals_variances_def compare_def variance_of_def append_variance_def payroll_total_def)

lemma check_pension_deductions_ok:
  assumes "pension_columns (payroll_df e) (gl_df e)"
  shows "check_pension_deductions ssum e =
           Inr (e\<lparr>variances := variances e @ pension_variances ssum (payroll_df e) (gl_df e),
                  flags := flags e @ pension_flags ssum (payroll_df e) (gl_df e)\<rparr>)"
  using assms
  by (simp add: check_pension_deductions_def pension_columns_def column_sum_eq account_sum_eq
      Let_def pension_variances_def pension_flags_def compare_def variance_of_def
      append_variance_def append_flag_def payroll_total_def)

lemma benefit_accruals_calls_ok:
  assumes "benefits_columns (payroll_df e) (gl_df e)"
  shows "benefit_accruals_calls ssum e =
           Inr (map Append_Flag (benefits_flags ssum (payroll_df e) (gl_df e)) @
                map Append_Variance (benefits_variances ssum (payroll_df e) (gl_df e)))"
  using assms
  by (simp add: benefit_accruals_calls_def benefits_columns_def column_sum_eq account_sum_eq
      Let_def benefits_variances_def benefits_flags_def compare_def variance_of_def
      payroll_total_def)

lemma run_flags_variances:
  "run (map Append_Flag fs @ map Append_Variance vs) e =
     e\<lparr>variances := variances e @ vs, flags := flags e @ fs\<rparr>"
proof -
  have f: "foldl perform e (map Append_Flag fs) = e\<lparr>flags := flags e @ fs\<rparr>" for e
    by (induction fs arbitrary: e) (simp_all add: append_flag_def)
  have v: "foldl perform e (map Append_Variance vs) = e\<lparr>variances := variances e @ vs\<rparr>" for e
    by (induction vs arbitrary: e) (simp_all add: append_variance_def)
  show ?thesis by (cases e) (simp add: run_def f v)
qed

lemma check_benefit_accruals_ok:
  assumes "benefits_columns (payroll_df e) (gl_df e)"
  shows "check_benefit_accruals ssum e =
           Inr (e\<lparr>variances := variances e @ benefits_variances ssum (payroll_df e) (gl_df e),
                  flags := flags e @ benefits_flags ssum (payroll_df e) (gl_df e)\<rparr>)"
  by (simp add: check_benefit_accruals_def benefit_accruals_calls_ok [OF assms]
      run_flags_variances)

lemma check_retro_adjustments_ok:
  assumes "retro_columns (payroll_df e)"
  shows "check_retro_adjustments e = Inr (e\<lparr>flags := flags e @ retro_flags (payroll_df e)\<rparr>)"
  using assms
  by (simp add: check_retro_adjustments_def retro_columns_def col_def Let_def retro_flags_def
      append_flag_def comp_def)

lemma cost_center_step_ok:
  assumes "step_columns (payroll_df e) (gl_df e)"
  shows "cost_center_step ssum e cc =
           Inr (e\<lparr>variances := variances e @
                  compare (cost_center_label cc) (cc_payroll_gross ssum cc (payroll_df e))
                    (cc_gl_expense ssum cc (gl_df e)) ''Medium''\<rparr>)"
  using assms
  by (simp add: cost_center_step_def step_columns_def col_def column_sum_eq account_sum_eq
      Let_def compare_def variance_of_def append_variance_def cc_payroll_gross_def
      cc_gl_expense_def gl_total_def cost_center_label_def comp_def)

lemma cost_center_loop_ok:
  assumes "step_columns (payroll_df e) (gl_df e)"
  shows "cost_center_loop ssum e ccs =
           Inr (e\<lparr>variances := variances e @
                  cost_center_variances ssum (payroll_df e) (gl_df e) ccs\<rparr>)"
  using assms
proof (induction ccs arbitrary: e)
  case Nil
  then show ?case by (simp add: cost_center_variances_def)
next
  case (Cons cc ccs)
  let ?e1 = "e\<lparr>variances := variances e @
      compare (cost_center_label cc) (cc_payroll_gross ssum cc (payroll_df e))
        (cc_gl_expense ssum cc (gl_df e)) ''Medium''\<rparr>"
  have "step_columns (payroll_df ?e1) (gl_df ?e1)" using Cons.prems by simp
  from Cons.IH [OF this] show ?case
    by (simp add: cost_center_step_ok [OF Cons.prems] cost_center_variances_def)
qed

subsection \<open>Distinct values in order of first appearance\<close>

lemma unique_from_Nil: "unique_from seen xs = [] \<longleftrightarrow> set xs \<subseteq> set seen"
  by (induction seen xs rule: unique_from.induct) auto

lemma unique_Nil [simp]: "unique xs = [] \<longleftrightarrow> xs = []"
  by (simp add: unique_def unique_from_Nil)

lemma set_unique_from: "set (unique_from seen xs) = set xs - set seen"
  by (induction seen xs rule: unique_from.induct) auto

lemma distinct_unique_from: "distinct (unique_from seen xs)"
  by (induction seen xs rule: unique_from.induct) (auto simp: set_unique_from)

lemma set_unique [simp]: "set (unique xs) = set xs"
  by (simp add: unique_def set_unique_from)

lemma distinct_unique [simp]: "distinct (unique xs)"
  by (simp add: unique_def distinct_unique_from)

subsection \<open>The checks when a column is missing\<close>

lemma check_totals_err:
  assumes "\<not> totals_columns (payroll_df e) (gl_df e)"
  shows "\<exists>c. check_totals ssum e = Inl (KeyError c) \<and> unreadable c (payroll_df e) (gl_df e)"
  using assms
  by (auto simp: check_totals_def totals_columns_def column_sum_eq account_sum_eq
      unreadable_def payroll_columns_read_def gl_columns_read_def)

lemma check_pension_deductions_err:
  assumes "\<not> pension_columns (payroll_df e) (gl_df e)"
  shows "\<exists>c. check_pension_deductions ssum e = Inl (KeyError c) \<and>
             unreadable c (payroll_df e) (gl_df e)"
  using assms
  by (auto simp: check_pension_deductions_def pension_columns_def column_sum_eq account_sum_eq
      unreadable_def payroll_columns_read_def gl_columns_read_def Let_def append_variance_def)

lemma check_benefit_accruals_err:
  assumes "\<not> benefits_columns (payroll_df e) (gl_df e)"
  shows "\<exists>c. check_benefit_accruals ssum e = Inl (KeyError c) \<and>
             unreadable c (payroll_df e) (gl_df e)"
  using assms
  by (auto simp: check_benefit_accruals_def benefit_accruals_calls_def benefits_columns_def
      column_sum_eq account_sum_eq unreadable_def payroll_columns_read_def gl_columns_read_def)

lemma check_retro_adjustments_err:
  assumes "\<not> retro_columns (payroll_df e)"
  shows "\<exists>c. check_retro_adjustments e = Inl (KeyError c) \<and>
             unreadable c (payroll_df e) (gl_df e)"
  using assms
  by (auto simp: check_retro_adjustments_def retro_columns_def col_def
      unreadable_def payroll_columns_read_def gl_columns_read_def Let_def)

lemma cost_center_step_err:
  assumes "\<not> step_columns (payroll_df e) (gl_df e)"
  shows "\<exists>c. cost_center_step ssum e cc = Inl (KeyError c) \<and>
             unreadable c (payroll_df e) (gl_df e)"
  using assms
  by (auto simp: cost_center_step_def step_columns_def col_def column_sum_eq account_sum_eq
      unreadable_def payroll_columns_read_def gl_columns_read_def Let_def)

lemma validate_cost_center_balancing_ok:
  assumes "balancing_columns (payroll_df e) (gl_df e)"
  shows "validate_cost_center_balancing ssum e =
           Inr (e\<lparr>variances := variances e @
                  cost_center_variances ssum (payroll_df e) (gl_df e)
                    (unique (map p_Cost_Center (rows (payroll_df e))))\<rparr>)"
proof (cases "rows (payroll_df e) = []")
  case True
  with assms show ?thesis
    by (simp add: validate_cost_center_balancing_def balancing_columns_def col_def
        cost_center_variances_def unique_def)
next
  case False
  with assms have "step_columns (payroll_df e) (gl_df e)"
    by (simp add: balancing_columns_def)
  from cost_center_loop_ok [OF this] assms show ?thesis
    by (simp add: validate_cost_center_balancing_def balancing_columns_def col_def)
qed

lemma validate_cost_center_balancing_err:
  assumes "\<not> balancing_columns (payroll_df e) (gl_df e)"
  shows "\<exists>c. validate_cost_center_balancing ssum e = Inl (KeyError c) \<and>
             unreadable c (payroll_df e) (gl_df e)"
proof (cases "''Cost_Center'' \<in> set (columns (payroll_df e))")
  case False
  then show ?thesis
    by (auto simp: validate_cost_center_balancing_def col_def unreadable_def
        payroll_columns_read_def)
next
  case True
  with assms have ne: "rows (payroll_df e) \<noteq> []"
    and ns: "\<not> step_columns (payroll_df e) (gl_df e)"
    by (auto simp: balancing_columns_def)
  from ne obtain cc ccs where u: "unique (map p_Cost_Center (rows (payroll_df e))) = cc # ccs"
    by (cases "unique (map p_Cost_Center (rows (payroll_df e)))") auto
  from cost_center_step_err [OF ns, of ssum cc] obtain c where
    "cost_center_step ssum e cc = Inl (KeyError c)" "unreadable c (payroll_df e) (gl_df e)"
    by blast
  with True u show ?thesis
    by (auto simp: validate_cost_center_balancing_def col_def)
qed

subsection \<open>The whole run\<close>

lemma columns_readable_iff:
  "columns_readable p g \<longleftrightarrow>
     totals_columns p g \<and> pension_columns p g \<and> benefits_columns p g \<and>
     retro_columns p \<and> balancing_columns p g"
  by (auto simp: columns_readable_def totals_columns_def pension_columns_def
      benefits_columns_def retro_columns_def balancing_columns_def step_columns_def
      payroll_columns_read_def)

lemma reconcile_ok:
  assumes "columns_readable (payroll_df e) (gl_df e)"
  shows "reconcile ssum e =
           Inr (generate_report
                  (e\<lparr>variances := variances e @ new_variances ssum (payroll_df e) (gl_df e),
                     flags := flags e @ new_flags ssum (payroll_df e) (gl_df e)\<rparr>),
                e\<lparr>variances := variances e @ new_variances ssum (payroll_df e) (gl_df e),
                  flags := flags e @ new_flags ssum (payroll_df e) (gl_df e)\<rparr>)"
proof -
  from assms have c: "totals_columns (payroll_df e) (gl_df e)"
    "pension_columns (payroll_df e) (gl_df e)" "benefits_columns (payroll_df e) (gl_df e)"
    "retro_columns (payroll_df e)" "balancing_columns (payroll_df e) (gl_df e)"
    by (simp_all add: columns_readable_iff)
  have swap: "e\<lparr>flags := fs, variances := vs\<rparr> = e\<lparr>variances := vs, flags := fs\<rparr>" for vs fs
    by (cases e) simp
  show ?thesis
    unfolding reconcile_def
    by (simp add: check_totals_ok check_pension_deductions_ok check_benefit_accruals_ok
        check_retro_adjustments_ok validate_cost_center_balancing_ok c new_variances_def
        new_flags_def swap)
qed

lemma reconcile_err:
  assumes "\<not> columns_readable (payroll_df e) (gl_df e)"
  shows "\<exists>c. reconcile ssum e = Inl (KeyError c) \<and> unreadable c (payroll_df e) (gl_df e)"
proof -
  let ?p = "payroll_df e" and ?g = "gl_df e"
  consider (a) "\<not> totals_columns ?p ?g"
    | (b) "totals_columns ?p ?g" "\<not> pension_columns ?p ?g"
    | (c) "totals_columns ?p ?g" "pension_columns ?p ?g" "\<not> benefits_columns ?p ?g"
    | (d) "totals_columns ?p ?g" "pension_columns ?p ?g" "benefits_columns ?p ?g"
          "\<not> retro_columns ?p"
    | (f) "totals_columns ?p ?g" "pension_columns ?p ?g" "benefits_columns ?p ?g"
          "retro_columns ?p" "\<not> balancing_columns ?p ?g"
    using assms by (auto simp: columns_readable_iff)
  then show ?thesis
  proof cases
    case a
    from check_totals_err [OF a, of ssum] show ?thesis by (auto simp: reconcile_def)
  next
    case b
    let ?e1 = "e\<lparr>variances := variances e @ totals_variances ssum ?p ?g\<rparr>"
    have "\<not> pension_columns (payroll_df ?e1) (gl_df ?e1)" using b by simp
    from check_pension_deductions_err [OF this, of ssum] show ?thesis
      using b by (auto simp: reconcile_def check_totals_ok)
  next
    case c
    let ?e2 = "e\<lparr>variances := (variances e @ totals_variances ssum ?p ?g) @
                     pension_variances ssum ?p ?g,
                   flags := flags e @ pension_flags ssum ?p ?g\<rparr>"
    have "\<not> benefits_columns (payroll_df ?e2) (gl_df ?e2)" using c by simp
    from check_benefit_accruals_err [OF this, of ssum] show ?thesis
      using c by (auto simp: reconcile_def check_totals_ok check_pension_deductions_ok)
  next
    case d
    let ?e3 = "e\<lparr>variances := ((variances e @ totals_variances ssum ?p ?g) @
                     pension_variances ssum ?p ?g) @ benefits_variances ssum ?p ?g,
                   flags := (flags e @ pension_flags ssum ?p ?g) @ benefits_flags ssum ?p ?g\<rparr>"
    have "\<not> retro_columns (payroll_df ?e3)" using d by simp
    from check_retro_adjustments_err [OF this] show ?thesis
      using d by (auto simp: reconcile_def check_totals_ok check_pension_deductions_ok
          check_benefit_accruals_ok)
  next
    case f
    let ?e4 = "e\<lparr>variances := ((variances e @ totals_variances ssum ?p ?g) @
                     pension_variances ssum ?p ?g) @ benefits_variances ssum ?p ?g,
                   flags := ((flags e @ pension_flags ssum ?p ?g) @ benefits_flags ssum ?p ?g)
                     @ retro_flags ?p\<rparr>"
    have "\<not> balancing_columns (payroll_df ?e4) (gl_df ?e4)" using f by simp
    from validate_cost_center_balancing_err [OF this, of ssum] show ?thesis
      using f by (auto simp: reconcile_def check_totals_ok check_pension_deductions_ok
          check_benefit_accruals_ok check_retro_adjustments_ok)
  qed
qed

lemma reconcile_Inr:
  assumes "reconcile ssum e = Inr (rep, e')"
  shows "columns_readable (payroll_df e) (gl_df e)"
    and "e' = e\<lparr>variances := variances e @ new_variances ssum (payroll_df e) (gl_df e),
                 flags := flags e @ new_flags ssum (payroll_df e) (gl_df e)\<rparr>"
    and "rep = generate_report e'"
proof -
  show c: "columns_readable (payroll_df e) (gl_df e)"
  proof (rule ccontr)
    assume "\<not> columns_readable (payroll_df e) (gl_df e)"
    from reconcile_err [OF this, of ssum] assms show False by auto
  qed
  from reconcile_ok [OF c, of ssum] assms
  show e': "e' = e\<lparr>variances := variances e @ new_variances ssum (payroll_df e) (gl_df e),
                 flags := flags e @ new_flags ssum (payroll_df e) (gl_df e)\<rparr>"
    by simp
  from reconcile_ok [OF c, of ssum] assms e' show "rep = generate_report e'" by simp
qed

lemma rows_variance_df [simp]: "rows (variance_df (generate_report e)) = variances e"
  by (simp add: generate_report_def Let_def)

lemma rows_flags_df [simp]: "rows (flags_df (generate_report e)) = flags e"
  by (simp add: generate_report_def Let_def)

lemma summary_generate_report:
  "Total_Variances (summary (generate_report e)) = length (variances e)"
  "Total_Flags (summary (generate_report e)) = length (flags e)"
  "Total_Variance_Amount (summary (generate_report e)) =
     round2 (py_sum (map (\<lambda>v. \<bar>Variance v\<bar>) (variances e)))"
  "Reconciliation_Status (summary (generate_report e)) =
     (if variances e \<noteq> [] then ''FAILED'' else ''PASSED'')"
  by (simp_all add: generate_report_def Let_def)

subsection \<open>Running the model on sample tables\<close>

text \<open>
  The simplifier evaluates a run on concrete tables with the definitions below. The
  float64 operations are unfolded on numerals only, so that they stay folded on the bound
  variables of the checks.
\<close>

lemma floor_fraction [simp]: "\<lfloor>(numeral a :: rat) / numeral b\<rfloor> = numeral a div numeral b"
  by (metis floor_divide_of_int_eq of_int_numeral)

lemma floor_neg_fraction [simp]:
  "\<lfloor>- ((numeral a :: rat) / numeral b)\<rfloor> = - numeral a div numeral b"
  by (metis floor_divide_of_int_eq of_int_numeral of_int_minus minus_divide_left)

lemma floor_unit_fraction [simp]: "\<lfloor>1 / (numeral b :: rat)\<rfloor> = 1 div numeral b"
  by (metis floor_divide_of_int_eq of_int_numeral of_int_1)

lemma floor_neg_unit_fraction [simp]: "\<lfloor>- (1 / (numeral b :: rat))\<rfloor> = - 1 div numeral b"
  by (metis floor_divide_of_int_eq of_int_numeral of_int_1 of_int_minus minus_divide_left)

lemma ceiling_fraction [simp]:
  "\<lceil>(numeral a :: rat) / numeral b\<rceil> = - (- numeral a div numeral b)"
  by (metis ceiling_def floor_neg_fraction)

lemma round_half_even_of_int [simp]: "round_half_even (of_int k) = k"
  by (simp add: round_half_even_def)

lemma round_half_even_numeral [simp]:
  "round_half_even (numeral a) = numeral a" "round_half_even (- numeral a) = - numeral a"
  "round_half_even 0 = 0" "round_half_even 1 = 1" "round_half_even (- 1) = - 1"
  using round_half_even_of_int [of "numeral a"] round_half_even_of_int [of "- numeral a"]
    round_half_even_of_int [of 0] round_half_even_of_int [of 1] round_half_even_of_int [of "- 1"]
  by simp_all

lemma fl_0 [simp]: "fl 0 = 0"
  by (simp add: fl_def)

lemmas float_eval =
  fl_def [of "numeral a"] fl_def [of 1] fl_def [of "numeral a / numeral b"]
  fl_def [of "1 / numeral b"] fl_def [of "- numeral a"] fl_def [of "- 1"]
  fl_def [of "- (numeral a / numeral b)"] fl_def [of "- (1 / numeral b)"]
  exponent_def [of "numeral a"] exponent_def [of 1] exponent_def [of "numeral a / numeral b"]
  exponent_def [of "1 / numeral b"]
  round_half_even_def [of "numeral a / numeral b"] round_half_even_def [of "1 / numeral b"]
  round_half_even_def [of "- (numeral a / numeral b)"]
  round_half_even_def [of "- (1 / numeral b)"]
  pow2_def [of "numeral a"] pow2_def [of "- numeral a"] pow2_def [of 0] pow2_def [of 1]
  pow2_def [of "- 1"]
  bit_length.simps [of "numeral a"] bit_length.simps [of 0] bit_length.simps [of 1]
  fadd_def fsub_def fmul_def fdiv_def tolerance_def round2_def py_sum_def Let_def
  for a b

lemmas engine_defs =
  reconcile_def check_totals_def check_pension_deductions_def check_benefit_accruals_def
  benefit_accruals_calls_def run_def check_retro_adjustments_def
  validate_cost_center_balancing_def cost_center_step_def generate_report_def column_sum_def
  account_sum_def col_def select_def init_def append_variance_def append_flag_def unique_def
  format_2f_def str_nat.simps digit_char_def payroll_required_columns_def
  gl_required_columns_def

text \<open>The float64 values of some decimal amounts, and two differences.\<close>

lemma float64_values:
  "fl (1 / 100) = 5764607523034235 / 576460752303423488"
  "fl (1 / 10) = 3602879701896397 / 36028797018963968"
  "fl (2 / 10) = 3602879701896397 / 18014398509481984"
  "fl (3 / 10) = 5404319552844595 / 18014398509481984"
  "fl (101782 / 100) = 8952839399863747 / 8796093022208"
  "fl (101781 / 100) = 2238187859733381 / 2199023255552"
  "fl (12802 / 100) = 4504303314812273 / 35184372088832"
  "fl (2802 / 100) = 7886928847432581 / 281474976710656"
  by (simp_all add: float_eval)

lemma float64_differences:
  "fsub (fl (101782 / 100)) (fl (101781 / 100)) = 87960930223 / 8796093022208"
  "fsub (fl (12802 / 100)) (fl (2802 / 100)) = 7036874417766401 / 70368744177664"
  "fadd (fl (1 / 10)) (fl (2 / 10)) = 1351079888211149 / 4503599627370496"
  by (simp_all add: float_eval)

lemma ex_reconcile: "reconcile py_sum (init ex_payroll ex_gl) = Inr (ex_report, ex_after)"
  by (simp add: engine_defs float_eval ex_payroll_def ex_gl_def ex_report_def ex_after_def
      ex_variances_def ex_flags_def)

lemmas accrual_defs =
  accrual_payroll_def accrual_gl_def accrual_variance_def accrual_flag_def accrual_after_def
  accrual_after_second_def accrual_report_def accrual_report_second_def

lemma accrual_reconcile:
  "reconcile py_sum (init accrual_payroll accrual_gl) = Inr (accrual_report, accrual_after)"
  by (simp add: engine_defs float_eval accrual_defs)

lemma accrual_reconcile_second:
  "reconcile py_sum accrual_after = Inr (accrual_report_second, accrual_after_second)"
  by (simp add: engine_defs float_eval accrual_defs)

lemmas missing_defs =
  no_id_payroll_def no_cc_payroll_def no_cc_gl_def empty_payroll_def empty_no_cc_gl_def
  empty_report_def ex_payroll_def ex_gl_def ex_report_def ex_after_def ex_variances_def
  ex_flags_def

lemma no_id_reconcile:
  "reconcile py_sum (init no_id_payroll ex_gl) =
     Inr (ex_report, ex_after\<lparr>payroll_df := no_id_payroll\<rparr>)"
  by (simp add: engine_defs float_eval missing_defs)

lemma empty_no_cc_reconcile:
  "reconcile py_sum (init empty_payroll empty_no_cc_gl) =
     Inr (empty_report, init empty_payroll empty_no_cc_gl)"
  by (simp add: engine_defs float_eval missing_defs)

lemma no_cc_payroll_reconcile:
  "reconcile py_sum (init no_cc_payroll ex_gl) = Inl (KeyError ''Cost_Center'')"
  by (simp add: engine_defs float_eval missing_defs)

lemma no_cc_gl_reconcile:
  "reconcile py_sum (init ex_payroll no_cc_gl) = Inl (KeyError ''Cost_Center'')"
  by (simp add: engine_defs float_eval missing_defs)

lemma dimes_reconcile:
  "reconcile py_sum (init dimes_payroll accrual_gl) = Inr (dimes_report, dimes_after)"
  by (simp add: engine_defs float_eval dimes_payroll_def accrual_gl_def dimes_report_def
      dimes_after_def dimes_variances_def)

lemmas penny_defs =
  penny_payroll_def penny_gl_def penny_after_def penny_gross_variance_def
  penny_benefits_variance_def penny_benefits_flag_def penny_cost_center_variance_def

lemma penny_reconcile:
  "reconcile py_sum (init penny_payroll penny_gl) =
     Inr (generate_report penny_after, penny_after)"
  by (simp add: engine_defs float_eval penny_defs)

lemma penny_benefit_accruals_calls:
  "benefit_accruals_calls py_sum (init penny_payroll penny_gl) =
     Inr [Append_Flag penny_benefits_flag, Append_Variance penny_benefits_variance]"
  by (simp add: engine_defs float_eval penny_defs)

lemma penny_check_benefit_accruals:
  "check_benefit_accruals py_sum (init penny_payroll penny_gl) =
     Inr (init penny_payroll penny_gl
            \<lparr>variances := [penny_benefits_variance], flags := [penny_benefits_flag]\<rparr>)"
  by (simp add: engine_defs float_eval penny_defs)

lemma penny_balancing:
  "validate_cost_center_balancing py_sum (init penny_payroll penny_gl) =
     Inr (init penny_payroll penny_gl\<lparr>variances := [penny_cost_center_variance]\<rparr>)"
  by (simp add: engine_defs float_eval penny_defs)

lemma cent_reconcile:
  "reconcile py_sum (init cent_payroll cent_gl) = Inr (empty_report, init cent_payroll cent_gl)"
  by (simp add: engine_defs float_eval cent_payroll_def cent_gl_def empty_report_def)

lemma tol_reconcile:
  "reconcile py_sum (init tol_payroll tol_gl) = Inr (empty_report, init tol_payroll tol_gl)"
  by (simp add: engine_defs float_eval tol_payroll_def tol_gl_def empty_report_def)

lemma over_cent_reconcile:
  "reconcile py_sum (init over_cent_payroll cent_gl) =
     Inr (generate_report over_cent_after, over_cent_after)"
  by (simp add: engine_defs float_eval over_cent_payroll_def cent_gl_def over_cent_after_def
      over_cent_variances_def)

lemma hundred_check_totals:
  "check_totals py_sum (init hundred_payroll hundred_gl) =
     Inr (init hundred_payroll hundred_gl\<lparr>variances := [hundred_high_variance]\<rparr>)"
  by (simp add: engine_defs float_eval hundred_payroll_def hundred_gl_def
      hundred_high_variance_def)

lemma ex_check_totals:
  "check_totals py_sum (init ex_payroll ex_gl) =
     Inr (init ex_payroll ex_gl\<lparr>variances := hundred_variances\<rparr>)"
  by (simp add: engine_defs float_eval ex_payroll_def ex_gl_def hundred_variances_def)

lemma salary_only_check_totals:
  "check_totals py_sum (init ex_payroll salary_only_gl) =
     Inr (init ex_payroll salary_only_gl\<lparr>variances := salary_only_variances\<rparr>)"
  by (simp add: engine_defs float_eval ex_payroll_def salary_only_gl_def
      salary_only_variances_def)

lemma accrual_check_benefit_accruals:
  "check_benefit_accruals py_sum (init accrual_payroll accrual_gl) = Inr accrual_after"
  by (simp add: engine_defs float_eval accrual_defs)

lemma cent_check_benefit_accruals:
  "check_benefit_accruals py_sum (init cent_payroll cent_gl) = Inr (init cent_payroll cent_gl)"
  by (simp add: engine_defs float_eval cent_payroll_def cent_gl_def)

lemma scenario_c_balancing:
  "validate_cost_center_balancing py_sum (init scenario_c_payroll scenario_c_gl) =
     Inr (init scenario_c_payroll scenario_c_gl\<lparr>variances := scenario_c_variances\<rparr>)"
  by (simp add: engine_defs float_eval scenario_c_payroll_def scenario_c_gl_def
      scenario_c_variances_def)

subsection \<open>The report\<close>

text \<open>
  C3. Whenever \<^verbatim>\<open>reconcile()\<close> returns a report, its status is FAILED exactly when the
  variance list of the report is non-empty and PASSED exactly when it is empty; replacing
  the flag list by any other list leaves the status unchanged.
\<close>

theorem status_failed_iff_variances:
  assumes "reconcile ssum e = Inr (rep, e')"
  shows "(Reconciliation_Status (summary rep) = ''FAILED'' \<longleftrightarrow> rows (variance_df rep) \<noteq> []) \<and>
         (Reconciliation_Status (summary rep) = ''PASSED'' \<longleftrightarrow> rows (variance_df rep) = []) \<and>
         Reconciliation_Status (summary (generate_report (e'\<lparr>flags := fs\<rparr>))) =
           Reconciliation_Status (summary rep)"
proof -
  from reconcile_Inr(3) [OF assms] have "rep = generate_report e'" .
  then show ?thesis by (simp add: summary_generate_report)
qed

theorem status_failed_iff_variances_witness:
  "reconcile py_sum (init ex_payroll ex_gl) = Inr (ex_report, ex_after) \<and>
   Reconciliation_Status (summary ex_report) = ''FAILED'' \<and>
   rows (variance_df ex_report) \<noteq> [] \<and>
   Reconciliation_Status (summary (generate_report (ex_after\<lparr>flags := []\<rparr>))) = ''FAILED''"
  using status_failed_iff_variances [OF ex_reconcile, of "[]"] ex_reconcile
  by (simp add: ex_report_def ex_variances_def)

lemma round_half_even_nearest:
  "\<bar>y - of_int (round_half_even y)\<bar> \<le> 1 / 2"
  "\<bar>y - of_int (round_half_even y)\<bar> = 1 / 2 \<Longrightarrow> even (round_half_even y)"
proof -
  have f: "of_int \<lfloor>y\<rfloor> \<le> y" "y < of_int \<lfloor>y\<rfloor> + 1"
    by linarith+
  show "\<bar>y - of_int (round_half_even y)\<bar> \<le> 1 / 2"
    using f by (auto simp: round_half_even_def Let_def)
  show "even (round_half_even y)" if "\<bar>y - of_int (round_half_even y)\<bar> = 1 / 2"
    using f that by (auto simp: round_half_even_def Let_def split: if_splits)
qed

text \<open>
  C4. Whenever \<^verbatim>\<open>reconcile()\<close> returns a report, Total\_Variance\_Amount is the sum of
  the absolute values of the Variance fields of the report's variance records, added in
  float64 from left to right, rounded to two decimals: it is the float64 value of
  \<open>k / 100\<close> for the integer \<open>k\<close> nearest to the float64 product of the sum and 100, the
  even one of the two when the product lies halfway. In the witness the variances are
  0.1 and 0.2, their float64 sum is 0.30000000000000004 and the reported amount is the
  float64 value of 0.3.
\<close>

theorem total_variance_amount_is_sum:
  assumes "reconcile ssum e = Inr (rep, e')"
  shows "Total_Variance_Amount (summary rep) =
           round2 (foldl (\<lambda>s x. fl (s + x)) 0 (map (\<lambda>v. \<bar>Variance v\<bar>) (rows (variance_df rep)))) \<and>
         (\<exists>k::int.
            Total_Variance_Amount (summary rep) = fl (of_int k / 100) \<and>
            \<bar>fl (foldl (\<lambda>s x. fl (s + x)) 0 (map (\<lambda>v. \<bar>Variance v\<bar>) (rows (variance_df rep)))
                 * 100) - of_int k\<bar> \<le> 1 / 2 \<and>
            (\<bar>fl (foldl (\<lambda>s x. fl (s + x)) 0 (map (\<lambda>v. \<bar>Variance v\<bar>) (rows (variance_df rep)))
                  * 100) - of_int k\<bar> = 1 / 2 \<longrightarrow> even k))"
proof -
  let ?s = "foldl (\<lambda>s x. fl (s + x)) 0 (map (\<lambda>v. \<bar>Variance v\<bar>) (rows (variance_df rep)))"
  have p: "py_sum xs = foldl (\<lambda>s x. fl (s + x)) 0 xs" for xs
    by (simp add: py_sum_def fadd_def [abs_def])
  have a: "Total_Variance_Amount (summary rep) = round2 ?s"
    by (simp add: reconcile_Inr(3) [OF assms] summary_generate_report p)
  let ?k = "round_half_even (fl (?s * 100))"
  have b: "round2 ?s = fl (of_int ?k / 100)"
    by (simp add: round2_def fdiv_def fmul_def)
  show ?thesis
  proof (intro conjI exI [of _ ?k] impI)
    show "Total_Variance_Amount (summary rep) = round2 ?s" by (rule a)
    show "Total_Variance_Amount (summary rep) = fl (of_int ?k / 100)"
      using a b by simp
    show "\<bar>fl (?s * 100) - of_int ?k\<bar> \<le> 1 / 2"
      by (rule round_half_even_nearest(1))
    show "even ?k" if "\<bar>fl (?s * 100) - of_int ?k\<bar> = 1 / 2"
      using that by (rule round_half_even_nearest(2))
  qed
qed

theorem total_variance_amount_is_sum_witness:
  "reconcile py_sum (init dimes_payroll accrual_gl) = Inr (dimes_report, dimes_after) \<and>
   map Variance (rows (variance_df dimes_report)) =
     [3602879701896397 / 36028797018963968, 3602879701896397 / 18014398509481984] \<and>
   foldl (\<lambda>s x. fl (s + x)) 0 (map (\<lambda>v. \<bar>Variance v\<bar>) (rows (variance_df dimes_report))) =
     1351079888211149 / 4503599627370496 \<and>
   Total_Variance_Amount (summary dimes_report) = 5404319552844595 / 18014398509481984 \<and>
   fl (of_int 30 / 100) = 5404319552844595 / 18014398509481984"
  using total_variance_amount_is_sum [OF dimes_reconcile] dimes_reconcile
  by (simp add: dimes_report_def dimes_variances_def float_eval)

subsection \<open>The records a run emits\<close>

lemma set_compare:
  "v \<in> set (compare ty pa ga sev) \<longleftrightarrow> tolerance < \<bar>fsub pa ga\<bar> \<and> v = variance_of ty pa ga sev"
  by (auto simp: compare_def)

lemma set_cost_center_variances:
  "v \<in> set (cost_center_variances ssum p g ccs) \<longleftrightarrow>
     (\<exists>cc\<in>set ccs. tolerance < \<bar>fsub (cc_payroll_gross ssum cc p) (cc_gl_expense ssum cc g)\<bar> \<and>
        v = variance_of (cost_center_label cc) (cc_payroll_gross ssum cc p)
              (cc_gl_expense ssum cc g) ''Medium'')"
  by (auto simp: cost_center_variances_def set_compare)

lemma new_variances_cases:
  assumes "v \<in> set (new_variances ssum p g)"
  obtains ty pa ga sev where "v = variance_of ty pa ga sev" "sev = ''High'' \<or> sev = ''Medium''"
  using assms
  by (auto simp: new_variances_def totals_variances_def pension_variances_def
      benefits_variances_def set_compare set_cost_center_variances split: if_splits)

text \<open>
  C9. Every variance record that a \<^verbatim>\<open>reconcile()\<close> call appends has severity High or
  Medium, and so never Low; on an engine that started with an empty variance list this
  holds for every variance record of the report.
\<close>

theorem severity_never_low:
  assumes "reconcile ssum e = Inr (rep, e')"
  shows "\<exists>new. variances e' = variances e @ new \<and>
           (\<forall>v\<in>set new. (Severity v = ''High'' \<or> Severity v = ''Medium'') \<and>
                         Severity v \<noteq> ''Low'') \<and>
           (variances e = [] \<longrightarrow>
              (\<forall>v\<in>set (rows (variance_df rep)).
                 (Severity v = ''High'' \<or> Severity v = ''Medium'') \<and> Severity v \<noteq> ''Low''))"
proof -
  note r = reconcile_Inr [OF assms]
  have s: "(Severity v = ''High'' \<or> Severity v = ''Medium'') \<and> Severity v \<noteq> ''Low''"
    if "v \<in> set (new_variances ssum (payroll_df e) (gl_df e))" for v
    using that by (rule new_variances_cases) (auto simp: variance_of_def)
  show ?thesis
  proof (intro exI conjI)
    show "variances e' = variances e @ new_variances ssum (payroll_df e) (gl_df e)"
      by (simp add: r(2))
    show "\<forall>v\<in>set (new_variances ssum (payroll_df e) (gl_df e)).
            (Severity v = ''High'' \<or> Severity v = ''Medium'') \<and> Severity v \<noteq> ''Low''"
      using s by blast
    show "variances e = [] \<longrightarrow>
            (\<forall>v\<in>set (rows (variance_df rep)).
               (Severity v = ''High'' \<or> Severity v = ''Medium'') \<and> Severity v \<noteq> ''Low'')"
      using s by (simp add: r(2,3))
  qed
qed

theorem severity_never_low_witness:
  "reconcile py_sum (init ex_payroll ex_gl) = Inr (ex_report, ex_after) \<and>
   variances (init ex_payroll ex_gl) = [] \<and>
   map Severity (rows (variance_df ex_report)) = [''Medium'', ''High'', ''High'', ''Medium''] \<and>
   ''Low'' \<notin> set (map Severity (rows (variance_df ex_report)))"
  using severity_never_low [OF ex_reconcile] ex_reconcile
  by (simp add: ex_report_def ex_variances_def init_def)

subsection \<open>Flags, and a second call on the same engine\<close>

text \<open>
  C10. The flags that one \<^verbatim>\<open>reconcile()\<close> call appends are at most four: at most one of
  category Pension, at most one of category Benefits Accrual and at most two of category
  Retro Adjustment (at most one about bonuses and at most one about overtime); no flag of
  another category is appended.
\<close>

theorem at_most_four_flags:
  assumes "reconcile ssum e = Inr (rep, e')"
  shows "\<exists>new. flags e' = flags e @ new \<and> length new \<le> 4 \<and>
           length (filter (\<lambda>f. Category f = ''Pension'') new) \<le> 1 \<and>
           length (filter (\<lambda>f. Category f = ''Benefits Accrual'') new) \<le> 1 \<and>
           length (filter (\<lambda>f. Category f = ''Retro Adjustment'') new) \<le> 2 \<and>
           length (filter (\<lambda>f. Impact f = ''Potential retroactive pay adjustments'') new) \<le> 1 \<and>
           length (filter (\<lambda>f. Impact f = ''May indicate prior period corrections'') new) \<le> 1 \<and>
           (\<forall>f\<in>set new. Category f = ''Pension'' \<or> Category f = ''Benefits Accrual'' \<or>
                         Category f = ''Retro Adjustment'')"
proof (intro exI conjI)
  let ?new = "new_flags ssum (payroll_df e) (gl_df e)"
  show "flags e' = flags e @ ?new"
    by (simp add: reconcile_Inr(2) [OF assms])
  show "length ?new \<le> 4"
    by (simp add: new_flags_def pension_flags_def benefits_flags_def retro_flags_def Let_def)
  show "length (filter (\<lambda>f. Category f = ''Pension'') ?new) \<le> 1"
    by (simp add: new_flags_def pension_flags_def benefits_flags_def retro_flags_def Let_def)
  show "length (filter (\<lambda>f. Category f = ''Benefits Accrual'') ?new) \<le> 1"
    by (simp add: new_flags_def pension_flags_def benefits_flags_def retro_flags_def Let_def)
  show "length (filter (\<lambda>f. Category f = ''Retro Adjustment'') ?new) \<le> 2"
    by (simp add: new_flags_def pension_flags_def benefits_flags_def retro_flags_def Let_def)
  show "length (filter (\<lambda>f. Impact f = ''Potential retroactive pay adjustments'') ?new) \<le> 1"
    by (simp add: new_flags_def pension_flags_def benefits_flags_def retro_flags_def Let_def)
  show "length (filter (\<lambda>f. Impact f = ''May indicate prior period corrections'') ?new) \<le> 1"
    by (simp add: new_flags_def pension_flags_def benefits_flags_def retro_flags_def Let_def)
  show "\<forall>f\<in>set ?new. Category f = ''Pension'' \<or> Category f = ''Benefits Accrual'' \<or>
                      Category f = ''Retro Adjustment''"
    by (auto simp: new_flags_def pension_flags_def benefits_flags_def retro_flags_def Let_def
        split: if_splits)
qed

theorem at_most_four_flags_witness:
  "reconcile py_sum (init ex_payroll ex_gl) = Inr (ex_report, ex_after) \<and>
   flags ex_after = flags (init ex_payroll ex_gl) @ ex_flags \<and>
   map Category ex_flags =
     [''Pension'', ''Benefits Accrual'', ''Retro Adjustment'', ''Retro Adjustment''] \<and>
   (\<exists>new. flags ex_after = flags (init ex_payroll ex_gl) @ new \<and> length new \<le> 4 \<and>
      length (filter (\<lambda>f. Category f = ''Retro Adjustment'') new) \<le> 2)"
  using at_most_four_flags [OF ex_reconcile] ex_reconcile
  by (auto simp: ex_after_def ex_flags_def init_def)

text \<open>
  C1 as stated fails: on the tables of scenario B the first call reports one variance and
  one flag, the second call on the same engine reports each of them twice.
\<close>

theorem reconcile_twice_counterexample:
  "reconcile py_sum (init accrual_payroll accrual_gl) = Inr (accrual_report, accrual_after) \<and>
   reconcile py_sum accrual_after = Inr (accrual_report_second, accrual_after_second) \<and>
   accrual_report_second \<noteq> accrual_report \<and>
   Total_Variances (summary accrual_report) = 1 \<and>
   Total_Variances (summary accrual_report_second) = 2"
  using accrual_reconcile accrual_reconcile_second
  by (simp add: accrual_report_def accrual_report_second_def)

text \<open>
  C1, amended. The accumulators are not reset between calls: a second call on the engine
  left by a first call from a freshly constructed engine returns a report whose variance
  list and flag list are those of the first report, each repeated twice. The second report
  equals the first exactly when the first report has no variance and no flag.
\<close>

theorem reconcile_twice_appends_again:
  assumes "reconcile ssum (init p g) = Inr (r1, e1)"
  shows "\<exists>r2 e2. reconcile ssum e1 = Inr (r2, e2) \<and>
           rows (variance_df r2) = rows (variance_df r1) @ rows (variance_df r1) \<and>
           rows (flags_df r2) = rows (flags_df r1) @ rows (flags_df r1) \<and>
           (r2 = r1 \<longleftrightarrow> rows (variance_df r1) = [] \<and> rows (flags_df r1) = [])"
proof -
  note r = reconcile_Inr [OF assms]
  let ?V = "new_variances ssum p g" and ?F = "new_flags ssum p g"
  have e1: "e1 = \<lparr>payroll_df = p, gl_df = g, variances = ?V, flags = ?F\<rparr>"
    using r(2) by (simp add: init_def)
  from r(1) have "columns_readable (payroll_df e1) (gl_df e1)"
    by (simp add: e1 init_def)
  note second = reconcile_ok [OF this, of ssum]
  let ?e2 = "\<lparr>payroll_df = p, gl_df = g, variances = ?V @ ?V, flags = ?F @ ?F\<rparr>"
  have s: "reconcile ssum e1 = Inr (generate_report ?e2, ?e2)"
    using second by (simp add: e1)
  have eq: "generate_report ?e2 = r1 \<longleftrightarrow> ?V = [] \<and> ?F = []"
  proof
    assume a: "generate_report ?e2 = r1"
    then have "Total_Variances (summary (generate_report ?e2)) =
                 Total_Variances (summary (generate_report e1))"
      and "Total_Flags (summary (generate_report ?e2)) =
             Total_Flags (summary (generate_report e1))"
      by (simp_all add: r(3))
    then show "?V = [] \<and> ?F = []"
      by (simp add: summary_generate_report e1)
  next
    assume "?V = [] \<and> ?F = []"
    then show "generate_report ?e2 = r1" by (simp add: r(3) e1)
  qed
  show ?thesis
  proof (intro exI conjI)
    show "reconcile ssum e1 = Inr (generate_report ?e2, ?e2)" by (rule s)
    show "rows (variance_df (generate_report ?e2)) =
            rows (variance_df r1) @ rows (variance_df r1)"
      by (simp add: r(3) e1)
    show "rows (flags_df (generate_report ?e2)) = rows (flags_df r1) @ rows (flags_df r1)"
      by (simp add: r(3) e1)
    show "generate_report ?e2 = r1 \<longleftrightarrow> rows (variance_df r1) = [] \<and> rows (flags_df r1) = []"
      using eq by (simp add: r(3) e1)
  qed
qed

theorem reconcile_twice_appends_again_witness:
  "reconcile py_sum (init accrual_payroll accrual_gl) = Inr (accrual_report, accrual_after) \<and>
   (\<exists>r2 e2. reconcile py_sum accrual_after = Inr (r2, e2) \<and>
      rows (variance_df r2) = [accrual_variance, accrual_variance] \<and>
      rows (flags_df r2) = [accrual_flag, accrual_flag] \<and> r2 \<noteq> accrual_report)"
  using reconcile_twice_appends_again [OF accrual_reconcile] accrual_reconcile
  by (simp add: accrual_report_def)

subsection \<open>Missing columns\<close>

text \<open>
  C2 as stated fails. A payroll table without the required column Employee\_ID, which no
  check reads, is reconciled without any error. A GL table without the required column
  Cost\_Center is reconciled without any error when the payroll table has no rows, and the
  report returned is the empty one with status PASSED. When the run does fail, the error
  is the key error of the column lookup, which carries the column name only: a Cost\_Center
  column missing from the payroll table and one missing from the GL table raise the same
  error.
\<close>

theorem missing_column_counterexample:
  "''Employee_ID'' \<in> set payroll_required_columns \<and>
   ''Employee_ID'' \<notin> set (columns no_id_payroll) \<and>
   reconcile py_sum (init no_id_payroll ex_gl) =
     Inr (ex_report, ex_after\<lparr>payroll_df := no_id_payroll\<rparr>) \<and>
   ''Cost_Center'' \<in> set gl_required_columns \<and>
   ''Cost_Center'' \<notin> set (columns empty_no_cc_gl) \<and>
   reconcile py_sum (init empty_payroll empty_no_cc_gl) =
     Inr (empty_report, init empty_payroll empty_no_cc_gl) \<and>
   ''Cost_Center'' \<notin> set (columns no_cc_payroll) \<and>
   ''Cost_Center'' \<in> set (columns ex_gl) \<and>
   reconcile py_sum (init no_cc_payroll ex_gl) = Inl (KeyError ''Cost_Center'') \<and>
   ''Cost_Center'' \<in> set (columns ex_payroll) \<and>
   ''Cost_Center'' \<notin> set (columns no_cc_gl) \<and>
   reconcile py_sum (init ex_payroll no_cc_gl) = Inl (KeyError ''Cost_Center'')"
  using no_id_reconcile empty_no_cc_reconcile no_cc_payroll_reconcile no_cc_gl_reconcile
  by (simp add: missing_defs payroll_required_columns_def gl_required_columns_def)

text \<open>
  C2, amended. \<^verbatim>\<open>reconcile()\<close> on a freshly constructed engine returns a report exactly
  when every column that a check reads is present: Gross\_Pay, Net\_Pay, Total\_Deductions,
  Pension\_Deduction, Employer\_Pension\_Contribution, Employer\_Benefits, Bonus, Overtime and
  Cost\_Center in the payroll table; GL\_Account, Debit and Credit in the GL table; and
  Cost\_Center in the GL table when the payroll table has at least one row. Otherwise it
  returns no report and raises a key error that names one of these columns, absent from
  the table it is read from; the error names the column, not the table.
\<close>

theorem reconcile_fails_iff_column_unreadable:
  "(columns_readable p g \<longrightarrow> (\<exists>rep e'. reconcile ssum (init p g) = Inr (rep, e'))) \<and>
   (\<not> columns_readable p g \<longrightarrow>
      (\<exists>c. reconcile ssum (init p g) = Inl (KeyError c) \<and> unreadable c p g))"
proof (intro conjI impI)
  assume "columns_readable p g"
  then have "columns_readable (payroll_df (init p g)) (gl_df (init p g))"
    by (simp add: init_def)
  from reconcile_ok [OF this, of ssum]
  show "\<exists>rep e'. reconcile ssum (init p g) = Inr (rep, e')"
    by blast
next
  assume "\<not> columns_readable p g"
  then have "\<not> columns_readable (payroll_df (init p g)) (gl_df (init p g))"
    by (simp add: init_def)
  from reconcile_err [OF this, of ssum]
  show "\<exists>c. reconcile ssum (init p g) = Inl (KeyError c) \<and> unreadable c p g"
    by (simp add: init_def)
qed

theorem reconcile_fails_iff_column_unreadable_witness:
  "columns_readable ex_payroll ex_gl \<and>
   reconcile py_sum (init ex_payroll ex_gl) = Inr (ex_report, ex_after) \<and>
   \<not> columns_readable ex_payroll no_cc_gl \<and>
   reconcile py_sum (init ex_payroll no_cc_gl) = Inl (KeyError ''Cost_Center'') \<and>
   unreadable ''Cost_Center'' ex_payroll no_cc_gl"
  using reconcile_fails_iff_column_unreadable [of ex_payroll ex_gl py_sum]
    reconcile_fails_iff_column_unreadable [of ex_payroll no_cc_gl py_sum]
    ex_reconcile no_cc_gl_reconcile
  by (simp add: columns_readable_def unreadable_def payroll_columns_read_def
      gl_columns_read_def no_cc_gl_def ex_payroll_def ex_gl_def payroll_required_columns_def
      gl_required_columns_def)

subsection \<open>Counting the records of one comparison\<close>

lemma length_filter_compare:
  "length (filter (\<lambda>v. Type v = T) (compare ty pa ga sev)) =
     (if ty = T \<and> tolerance < \<bar>fsub pa ga\<bar> then 1 else 0)"
  by (auto simp: compare_def variance_of_def)

lemma cost_center_label_inject [simp]:
  "cost_center_label a = cost_center_label b \<longleftrightarrow> a = b"
  by (simp add: cost_center_label_def)

lemma length_filter_cost_center_variances:
  assumes "distinct ccs"
  shows "length (filter (\<lambda>v. Type v = cost_center_label cc)
                   (cost_center_variances ssum p g ccs)) =
           (if cc \<in> set ccs \<and>
               tolerance < \<bar>fsub (cc_payroll_gross ssum cc p) (cc_gl_expense ssum cc g)\<bar>
            then 1 else 0)"
  using assms
proof (induction ccs)
  case Nil
  then show ?case by (simp add: cost_center_variances_def)
next
  case (Cons c ccs)
  have split: "cost_center_variances ssum p g (c # ccs) =
                 compare (cost_center_label c) (cc_payroll_gross ssum c p)
                   (cc_gl_expense ssum c g) ''Medium'' @ cost_center_variances ssum p g ccs"
    by (simp add: cost_center_variances_def)
  from Cons show ?case
    by (auto simp: split length_filter_compare)
qed

lemma filter_other_cost_center_variances:
  assumes "\<And>cc. cost_center_label cc \<noteq> T"
  shows "filter (\<lambda>v. Type v = T) (cost_center_variances ssum p g ccs) = []"
proof -
  have "Type v \<noteq> T" if "v \<in> set (cost_center_variances ssum p g ccs)" for v
  proof -
    from that obtain cc where
      "v = variance_of (cost_center_label cc) (cc_payroll_gross ssum cc p)
             (cc_gl_expense ssum cc g) ''Medium''"
      by (auto simp: set_cost_center_variances)
    then show ?thesis using assms [of cc] by (simp add: variance_of_def)
  qed
  then show ?thesis by (auto simp: filter_empty_conv)
qed

lemma fixed_type_not_label:
  "cost_center_label cc \<noteq> ''Gross Pay Variance''"
  "cost_center_label cc \<noteq> ''Net Pay Variance''"
  "cost_center_label cc \<noteq> ''Total Deductions Variance''"
  "cost_center_label cc \<noteq> ''Pension Deduction Variance''"
  "cost_center_label cc \<noteq> ''Employer Pension Contribution Variance''"
  "cost_center_label cc \<noteq> ''Employer Benefits Variance''"
  by (simp_all add: cost_center_label_def)

lemma length_filter_fixed:
  assumes "\<And>cc. cost_center_label cc \<noteq> T"
  shows "length (filter (\<lambda>v. Type v = T) (new_variances ssum p g)) =
           length (filter (\<lambda>v. Type v = T)
             (totals_variances ssum p g @ pension_variances ssum p g @
              benefits_variances ssum p g))"
  using filter_other_cost_center_variances [OF assms]
  by (simp add: new_variances_def)

lemma length_filter_label:
  "length (filter (\<lambda>v. Type v = cost_center_label cc) (new_variances ssum p g)) =
     (if cc \<in> set (map p_Cost_Center (rows p)) \<and>
         tolerance < \<bar>fsub (cc_payroll_gross ssum cc p) (cc_gl_expense ssum cc g)\<bar>
      then 1 else 0)"
proof -
  have "length (filter (\<lambda>v. Type v = cost_center_label cc)
          (cost_center_variances ssum p g (unique (map p_Cost_Center (rows p))))) =
        (if cc \<in> set (map p_Cost_Center (rows p)) \<and>
            tolerance < \<bar>fsub (cc_payroll_gross ssum cc p) (cc_gl_expense ssum cc g)\<bar>
         then 1 else 0)"
    using length_filter_cost_center_variances
      [of "unique (map p_Cost_Center (rows p))" cc ssum p g]
    by simp
  moreover have "filter (\<lambda>v. Type v = cost_center_label cc)
      (totals_variances ssum p g @ pension_variances ssum p g @ benefits_variances ssum p g) = []"
    using fixed_type_not_label [of cc]
    by (auto simp: filter_empty_conv totals_variances_def pension_variances_def
        benefits_variances_def set_compare variance_of_def simp del: set_append)
  ultimately show ?thesis
    by (simp add: new_variances_def)
qed

subsection \<open>Tolerance\<close>

text \<open>
  C5 as stated fails. A payroll gross total of 1017.82 and debits of 1017.81 on account
  6100 are exactly 0.01 apart, and the run appends a Gross Pay Variance record for them
  (and, for the same amounts, an Employer Benefits Variance and a cost-center record): the
  checks subtract in float64, where the difference of the two amounts is
  0.010000000000104592, above the float64 value of 0.01.
\<close>

theorem tolerance_counterexample:
  "(101782 / 100 - 101781 / 100 :: rat) = 1 / 100 \<and>
   map Gross_Pay (rows penny_payroll) = [fl (101782 / 100)] \<and>
   map GL_Account (rows penny_gl) = [''6100'', ''6130''] \<and>
   map Debit (rows penny_gl) = [fl (101781 / 100), fl (101781 / 100)] \<and>
   reconcile py_sum (init penny_payroll penny_gl) =
     Inr (generate_report penny_after, penny_after) \<and>
   variances penny_after =
     [penny_gross_variance, penny_benefits_variance, penny_cost_center_variance] \<and>
   Type penny_gross_variance = ''Gross Pay Variance'' \<and>
   Variance penny_gross_variance = fl (1 / 100)"
  using penny_reconcile by (simp add: penny_defs)

text \<open>
  C5, amended. Among the variance records that one \<^verbatim>\<open>reconcile()\<close> call appends, each of
  the six table-level comparisons (gross pay against account 6100, net pay against 1010,
  total deductions against 2110, 2120 and 2130, pension deduction against 2110, employer
  pension contribution against 6120, employer benefits against 6130) and the comparison
  of each cost center contributes one record when the absolute value of the float64
  difference of its two float64 sums is strictly greater than the float64 value of 0.01,
  and none otherwise. Decimal amounts that are exactly 0.01 apart fall on either side:
  1017.82 against 1017.81 gives a record, 1000.01 against 1000.00 gives none. A float64
  difference equal to the float64 value of 0.01 (0.01 against 0.00) gives none, and
  1000.0100001 against 1000.00 gives one.
\<close>

theorem variance_iff_over_tolerance:
  assumes "reconcile ssum e = Inr (rep, e')"
  shows "\<exists>new. variances e' = variances e @ new \<and>
     length (filter (\<lambda>v. Type v = ''Gross Pay Variance'') new) =
       (if tolerance < \<bar>fsub (payroll_total ssum Gross_Pay (payroll_df e))
                             (gl_total ssum (\<lambda>a. a = ''6100'') Debit (gl_df e))\<bar>
        then 1 else 0) \<and>
     length (filter (\<lambda>v. Type v = ''Net Pay Variance'') new) =
       (if tolerance < \<bar>fsub (payroll_total ssum Net_Pay (payroll_df e))
                             (gl_total ssum (\<lambda>a. a = ''1010'') Credit (gl_df e))\<bar>
        then 1 else 0) \<and>
     length (filter (\<lambda>v. Type v = ''Total Deductions Variance'') new) =
       (if tolerance < \<bar>fsub (payroll_total ssum Total_Deductions (payroll_df e))
                             (gl_total ssum (\<lambda>a. a \<in> set [''2110'', ''2120'', ''2130''])
                                Credit (gl_df e))\<bar>
        then 1 else 0) \<and>
     length (filter (\<lambda>v. Type v = ''Pension Deduction Variance'') new) =
       (if tolerance < \<bar>fsub (payroll_total ssum Pension_Deduction (payroll_df e))
                             (gl_total ssum (\<lambda>a. a = ''2110'') Credit (gl_df e))\<bar>
        then 1 else 0) \<and>
     length (filter (\<lambda>v. Type v = ''Employer Pension Contribution Variance'') new) =
       (if tolerance < \<bar>fsub (payroll_total ssum Employer_Pension_Contribution (payroll_df e))
                             (gl_total ssum (\<lambda>a. a = ''6120'') Debit (gl_df e))\<bar>
        then 1 else 0) \<and>
     length (filter (\<lambda>v. Type v = ''Employer Benefits Variance'') new) =
       (if tolerance < \<bar>fsub (payroll_total ssum Employer_Benefits (payroll_df e))
                             (gl_total ssum (\<lambda>a. a = ''6130'') Debit (gl_df e))\<bar>
        then 1 else 0) \<and>
     (\<forall>cc. length (filter (\<lambda>v. Type v = ''Cost Center '' @ cc @ '' Variance'') new) =
       (if cc \<in> set (map p_Cost_Center (rows (payroll_df e))) \<and>
           tolerance < \<bar>fsub (cc_payroll_gross ssum cc (payroll_df e))
                              (cc_gl_expense ssum cc (gl_df e))\<bar>
        then 1 else 0))"
proof (intro exI conjI allI)
  let ?p = "payroll_df e" and ?g = "gl_df e"
  note fixed = length_filter_fixed [OF fixed_type_not_label(1)]
    length_filter_fixed [OF fixed_type_not_label(2)]
    length_filter_fixed [OF fixed_type_not_label(3)]
    length_filter_fixed [OF fixed_type_not_label(4)]
    length_filter_fixed [OF fixed_type_not_label(5)]
    length_filter_fixed [OF fixed_type_not_label(6)]
  note parts = totals_variances_def pension_variances_def benefits_variances_def
    length_filter_compare
  show "variances e' = variances e @ new_variances ssum ?p ?g"
    by (simp add: reconcile_Inr(2) [OF assms])
  show "length (filter (\<lambda>v. Type v = ''Gross Pay Variance'') (new_variances ssum ?p ?g)) =
       (if tolerance < \<bar>fsub (payroll_total ssum Gross_Pay ?p)
                             (gl_total ssum (\<lambda>a. a = ''6100'') Debit ?g)\<bar>
        then 1 else 0)"
    by (simp add: fixed parts)
  show "length (filter (\<lambda>v. Type v = ''Net Pay Variance'') (new_variances ssum ?p ?g)) =
       (if tolerance < \<bar>fsub (payroll_total ssum Net_Pay ?p)
                             (gl_total ssum (\<lambda>a. a = ''1010'') Credit ?g)\<bar>
        then 1 else 0)"
    by (simp add: fixed parts)
  show "length (filter (\<lambda>v. Type v = ''Total Deductions Variance'') (new_variances ssum ?p ?g)) =
       (if tolerance < \<bar>fsub (payroll_total ssum Total_Deductions ?p)
                             (gl_total ssum (\<lambda>a. a \<in> set [''2110'', ''2120'', ''2130''])
                                Credit ?g)\<bar>
        then 1 else 0)"
    by (simp add: fixed parts)
  show "length (filter (\<lambda>v. Type v = ''Pension Deduction Variance'') (new_variances ssum ?p ?g)) =
       (if tolerance < \<bar>fsub (payroll_total ssum Pension_Deduction ?p)
                             (gl_total ssum (\<lambda>a. a = ''2110'') Credit ?g)\<bar>
        then 1 else 0)"
    by (simp add: fixed parts)
  show "length (filter (\<lambda>v. Type v = ''Employer Pension Contribution Variance'')
          (new_variances ssum ?p ?g)) =
       (if tolerance < \<bar>fsub (payroll_total ssum Employer_Pension_Contribution ?p)
                             (gl_total ssum (\<lambda>a. a = ''6120'') Debit ?g)\<bar>
        then 1 else 0)"
    by (simp add: fixed parts)
  show "length (filter (\<lambda>v. Type v = ''Employer Benefits Variance'') (new_variances ssum ?p ?g)) =
       (if tolerance < \<bar>fsub (payroll_total ssum Employer_Benefits ?p)
                             (gl_total ssum (\<lambda>a. a = ''6130'') Debit ?g)\<bar>
        then 1 else 0)"
    by (simp add: fixed parts)
  fix cc
  show "length (filter (\<lambda>v. Type v = ''Cost Center '' @ cc @ '' Variance'')
          (new_variances ssum ?p ?g)) =
       (if cc \<in> set (map p_Cost_Center (rows ?p)) \<and>
           tolerance < \<bar>fsub (cc_payroll_gross ssum cc ?p) (cc_gl_expense ssum cc ?g)\<bar>
        then 1 else 0)"
    using length_filter_label [of cc ssum ?p ?g] by (simp add: cost_center_label_def)
qed

theorem variance_iff_over_tolerance_witness:
  "tolerance = 5764607523034235 / 576460752303423488 \<and>
   reconcile py_sum (init penny_payroll penny_gl) =
     Inr (generate_report penny_after, penny_after) \<and>
   fsub (payroll_total py_sum Gross_Pay penny_payroll)
        (gl_total py_sum (\<lambda>a. a = ''6100'') Debit penny_gl) = 87960930223 / 8796093022208 \<and>
   length (filter (\<lambda>v. Type v = ''Gross Pay Variance'') (variances penny_after)) = 1 \<and>
   reconcile py_sum (init cent_payroll cent_gl) =
     Inr (empty_report, init cent_payroll cent_gl) \<and>
   fsub (payroll_total py_sum Gross_Pay cent_payroll)
        (gl_total py_sum (\<lambda>a. a = ''6100'') Debit cent_gl) = 43980465111 / 4398046511104 \<and>
   variances (init cent_payroll cent_gl) = [] \<and>
   reconcile py_sum (init tol_payroll tol_gl) =
     Inr (empty_report, init tol_payroll tol_gl) \<and>
   fsub (payroll_total py_sum Gross_Pay tol_payroll)
        (gl_total py_sum (\<lambda>a. a = ''6100'') Debit tol_gl) = tolerance \<and>
   variances (init tol_payroll tol_gl) = [] \<and>
   reconcile py_sum (init over_cent_payroll cent_gl) =
     Inr (generate_report over_cent_after, over_cent_after) \<and>
   fsub (payroll_total py_sum Gross_Pay over_cent_payroll)
        (gl_total py_sum (\<lambda>a. a = ''6100'') Debit cent_gl) = 87961809831 / 8796093022208 \<and>
   length (filter (\<lambda>v. Type v = ''Gross Pay Variance'') (variances over_cent_after)) = 1 \<and>
   length (filter (\<lambda>v. Type v = ''Cost Center CC1001 Variance'') (variances over_cent_after)) = 1"
  using variance_iff_over_tolerance [OF penny_reconcile]
    variance_iff_over_tolerance [OF cent_reconcile]
    variance_iff_over_tolerance [OF tol_reconcile]
    variance_iff_over_tolerance [OF over_cent_reconcile]
    penny_reconcile cent_reconcile tol_reconcile over_cent_reconcile
  by (simp add: payroll_total_def gl_total_def penny_defs cent_payroll_def
      over_cent_payroll_def cent_gl_def tol_payroll_def tol_gl_def init_def
      over_cent_after_def over_cent_variances_def float_eval)
subsection \<open>What one check returns\<close>

lemma check_totals_Inr:
  assumes "check_totals ssum e = Inr e'"
  shows "e' = e\<lparr>variances := variances e @ totals_variances ssum (payroll_df e) (gl_df e)\<rparr>"
proof (cases "totals_columns (payroll_df e) (gl_df e)")
  case True
  from check_totals_ok [OF True, of ssum] assms show ?thesis by simp
next
  case False
  from check_totals_err [OF False, of ssum] assms show ?thesis by auto
qed

lemma check_benefit_accruals_Inr:
  assumes "check_benefit_accruals ssum e = Inr e'"
  shows "benefit_accruals_calls ssum e =
           Inr (map Append_Flag (benefits_flags ssum (payroll_df e) (gl_df e)) @
                map Append_Variance (benefits_variances ssum (payroll_df e) (gl_df e)))"
    and "e' = e\<lparr>variances := variances e @ benefits_variances ssum (payroll_df e) (gl_df e),
                 flags := flags e @ benefits_flags ssum (payroll_df e) (gl_df e)\<rparr>"
proof -
  have c: "benefits_columns (payroll_df e) (gl_df e)"
  proof (rule ccontr)
    assume "\<not> benefits_columns (payroll_df e) (gl_df e)"
    from check_benefit_accruals_err [OF this, of ssum] assms show False by auto
  qed
  show "benefit_accruals_calls ssum e =
          Inr (map Append_Flag (benefits_flags ssum (payroll_df e) (gl_df e)) @
               map Append_Variance (benefits_variances ssum (payroll_df e) (gl_df e)))"
    by (rule benefit_accruals_calls_ok [OF c])
  from check_benefit_accruals_ok [OF c, of ssum] assms
  show "e' = e\<lparr>variances := variances e @ benefits_variances ssum (payroll_df e) (gl_df e),
                flags := flags e @ benefits_flags ssum (payroll_df e) (gl_df e)\<rparr>"
    by simp
qed

lemma validate_cost_center_balancing_Inr:
  assumes "validate_cost_center_balancing ssum e = Inr e'"
  shows "e' = e\<lparr>variances := variances e @
               cost_center_variances ssum (payroll_df e) (gl_df e)
                 (unique (map p_Cost_Center (rows (payroll_df e))))\<rparr>"
proof (cases "balancing_columns (payroll_df e) (gl_df e)")
  case True
  from validate_cost_center_balancing_ok [OF True, of ssum] assms show ?thesis by simp
next
  case False
  from validate_cost_center_balancing_err [OF False, of ssum] assms show ?thesis by auto
qed

subsection \<open>The single checks\<close>

text \<open>
  C6 as stated fails. A payroll gross total of 128.02 and debits of 28.02 on account 6100
  are exactly 100.00 apart, and the totals check gives their variance record the severity
  High: the float64 difference of the two amounts is 100.00000000000001.
\<close>

theorem totals_severity_counterexample:
  "(12802 / 100 - 2802 / 100 :: rat) = 100 \<and>
   map Gross_Pay (rows hundred_payroll) = [fl (12802 / 100)] \<and>
   map GL_Account (rows hundred_gl) = [''6100''] \<and>
   map Debit (rows hundred_gl) = [fl (2802 / 100)] \<and>
   check_totals py_sum (init hundred_payroll hundred_gl) =
     Inr (init hundred_payroll hundred_gl\<lparr>variances := [hundred_high_variance]\<rparr>) \<and>
   Type hundred_high_variance = ''Gross Pay Variance'' \<and>
   Variance hundred_high_variance = 100 \<and>
   Severity hundred_high_variance = ''High''"
  using hundred_check_totals
  by (simp add: hundred_payroll_def hundred_gl_def hundred_high_variance_def)

text \<open>
  C6, amended. The totals check appends no flag and only records of the three types Gross
  Pay Variance, Net Pay Variance and Total Deductions Variance, one of each type exactly
  when the float64 difference of its two sums exceeds the tolerance. A gross-pay record
  has severity High exactly when the absolute value of the float64 difference of the
  gross total and the debits on account 6100 strictly exceeds 100, and Medium otherwise;
  a net-pay record always has severity High; a total-deductions record always has
  severity Medium. A computed difference of 100 gives Medium (10950.00 against 10850.00),
  but decimal amounts exactly 100.00 apart can give High (128.02 against 28.02); 100.01
  apart gives High.
\<close>

theorem totals_severity:
  assumes "check_totals ssum e = Inr e'"
  shows "\<exists>new. variances e' = variances e @ new \<and> flags e' = flags e \<and>
     length (filter (\<lambda>v. Type v = ''Gross Pay Variance'') new) =
       (if tolerance < \<bar>fsub (payroll_total ssum Gross_Pay (payroll_df e))
                             (gl_total ssum (\<lambda>a. a = ''6100'') Debit (gl_df e))\<bar>
        then 1 else 0) \<and>
     length (filter (\<lambda>v. Type v = ''Net Pay Variance'') new) =
       (if tolerance < \<bar>fsub (payroll_total ssum Net_Pay (payroll_df e))
                             (gl_total ssum (\<lambda>a. a = ''1010'') Credit (gl_df e))\<bar>
        then 1 else 0) \<and>
     length (filter (\<lambda>v. Type v = ''Total Deductions Variance'') new) =
       (if tolerance < \<bar>fsub (payroll_total ssum Total_Deductions (payroll_df e))
                             (gl_total ssum (\<lambda>a. a \<in> set [''2110'', ''2120'', ''2130''])
                                Credit (gl_df e))\<bar>
        then 1 else 0) \<and>
     (\<forall>v\<in>set new.
        (Type v = ''Gross Pay Variance'' \<or> Type v = ''Net Pay Variance'' \<or>
         Type v = ''Total Deductions Variance'') \<and>
        (Type v = ''Gross Pay Variance'' \<longrightarrow>
           (Severity v = ''High'' \<longleftrightarrow>
              100 < \<bar>fsub (payroll_total ssum Gross_Pay (payroll_df e))
                          (gl_total ssum (\<lambda>a. a = ''6100'') Debit (gl_df e))\<bar>) \<and>
           (Severity v = ''Medium'' \<longleftrightarrow>
              \<bar>fsub (payroll_total ssum Gross_Pay (payroll_df e))
                    (gl_total ssum (\<lambda>a. a = ''6100'') Debit (gl_df e))\<bar> \<le> 100)) \<and>
        (Type v = ''Net Pay Variance'' \<longrightarrow> Severity v = ''High'') \<and>
        (Type v = ''Total Deductions Variance'' \<longrightarrow> Severity v = ''Medium''))"
proof (intro exI conjI)
  let ?p = "payroll_df e" and ?g = "gl_df e"
  note e' = check_totals_Inr [OF assms]
  show "variances e' = variances e @ totals_variances ssum ?p ?g" by (simp add: e')
  show "flags e' = flags e" by (simp add: e')
  show "length (filter (\<lambda>v. Type v = ''Gross Pay Variance'') (totals_variances ssum ?p ?g)) =
       (if tolerance < \<bar>fsub (payroll_total ssum Gross_Pay ?p)
                             (gl_total ssum (\<lambda>a. a = ''6100'') Debit ?g)\<bar>
        then 1 else 0)"
    by (simp add: totals_variances_def length_filter_compare)
  show "length (filter (\<lambda>v. Type v = ''Net Pay Variance'') (totals_variances ssum ?p ?g)) =
       (if tolerance < \<bar>fsub (payroll_total ssum Net_Pay ?p)
                             (gl_total ssum (\<lambda>a. a = ''1010'') Credit ?g)\<bar>
        then 1 else 0)"
    by (simp add: totals_variances_def length_filter_compare)
  show "length (filter (\<lambda>v. Type v = ''Total Deductions Variance'')
          (totals_variances ssum ?p ?g)) =
       (if tolerance < \<bar>fsub (payroll_total ssum Total_Deductions ?p)
                             (gl_total ssum (\<lambda>a. a \<in> set [''2110'', ''2120'', ''2130''])
                                Credit ?g)\<bar>
        then 1 else 0)"
    by (simp add: totals_variances_def length_filter_compare)
  show "\<forall>v\<in>set (totals_variances ssum ?p ?g).
        (Type v = ''Gross Pay Variance'' \<or> Type v = ''Net Pay Variance'' \<or>
         Type v = ''Total Deductions Variance'') \<and>
        (Type v = ''Gross Pay Variance'' \<longrightarrow>
           (Severity v = ''High'' \<longleftrightarrow>
              100 < \<bar>fsub (payroll_total ssum Gross_Pay ?p)
                          (gl_total ssum (\<lambda>a. a = ''6100'') Debit ?g)\<bar>) \<and>
           (Severity v = ''Medium'' \<longleftrightarrow>
              \<bar>fsub (payroll_total ssum Gross_Pay ?p)
                    (gl_total ssum (\<lambda>a. a = ''6100'') Debit ?g)\<bar> \<le> 100)) \<and>
        (Type v = ''Net Pay Variance'' \<longrightarrow> Severity v = ''High'') \<and>
        (Type v = ''Total Deductions Variance'' \<longrightarrow> Severity v = ''Medium'')"
    by (auto simp: totals_variances_def set_compare variance_of_def)
qed

theorem totals_severity_witness:
  "check_totals py_sum (init ex_payroll ex_gl) =
     Inr (init ex_payroll ex_gl\<lparr>variances := hundred_variances\<rparr>) \<and>
   fsub (payroll_total py_sum Gross_Pay ex_payroll)
        (gl_total py_sum (\<lambda>a. a = ''6100'') Debit ex_gl) = 100 \<and>
   map Severity hundred_variances = [''Medium''] \<and>
   check_totals py_sum (init hundred_payroll hundred_gl) =
     Inr (init hundred_payroll hundred_gl\<lparr>variances := [hundred_high_variance]\<rparr>) \<and>
   fsub (payroll_total py_sum Gross_Pay hundred_payroll)
        (gl_total py_sum (\<lambda>a. a = ''6100'') Debit hundred_gl) =
     7036874417766401 / 70368744177664 \<and>
   Severity hundred_high_variance = ''High'' \<and>
   check_totals py_sum (init ex_payroll salary_only_gl) =
     Inr (init ex_payroll salary_only_gl\<lparr>variances := salary_only_variances\<rparr>) \<and>
   fsub (payroll_total py_sum Gross_Pay ex_payroll)
        (gl_total py_sum (\<lambda>a. a = ''6100'') Debit salary_only_gl) =
     54981078946939 / 549755813888 \<and>
   map Type salary_only_variances =
     [''Gross Pay Variance'', ''Net Pay Variance'', ''Total Deductions Variance''] \<and>
   map Severity salary_only_variances = [''High'', ''High'', ''Medium'']"
  using totals_severity [OF ex_check_totals] totals_severity [OF hundred_check_totals]
    totals_severity [OF salary_only_check_totals]
    ex_check_totals hundred_check_totals salary_only_check_totals
  by (simp add: payroll_total_def gl_total_def ex_payroll_def ex_gl_def salary_only_gl_def
      hundred_payroll_def hundred_gl_def hundred_high_variance_def hundred_variances_def
      salary_only_variances_def float_eval)

text \<open>
  C7 as stated fails. A payroll Employer\_Benefits sum of 1017.82 and debits of 1017.81 on
  account 6130 are exactly 0.01 apart, which is within the tolerance, and the
  benefit-accruals check emits a flag and a variance record for them: the float64
  difference of the two amounts is 0.010000000000104592.
\<close>

theorem benefits_counterexample:
  "(101782 / 100 - 101781 / 100 :: rat) = 1 / 100 \<and>
   map Employer_Benefits (rows penny_payroll) = [fl (101782 / 100)] \<and>
   map GL_Account (rows penny_gl) = [''6100'', ''6130''] \<and>
   map Debit (rows penny_gl) = [fl (101781 / 100), fl (101781 / 100)] \<and>
   benefit_accruals_calls py_sum (init penny_payroll penny_gl) =
     Inr [Append_Flag penny_benefits_flag, Append_Variance penny_benefits_variance] \<and>
   check_benefit_accruals py_sum (init penny_payroll penny_gl) =
     Inr (init penny_payroll penny_gl
            \<lparr>variances := [penny_benefits_variance], flags := [penny_benefits_flag]\<rparr>)"
  using penny_benefit_accruals_calls penny_check_benefit_accruals
  by (simp add: penny_defs)

text \<open>
  C7, amended. When the benefit-accruals check returns and the absolute value of the
  float64 difference of the payroll Employer\_Benefits sum and the debits on account 6130
  exceeds the float64 value of 0.01, its append calls are, in this order, one flag of
  category Benefits Accrual and one variance record of type Employer Benefits Variance
  and severity High, whose Variance is the rounded float64 difference; otherwise the
  check makes no append call and leaves the state unchanged. So the check never emits a
  flag without a variance or a variance without a flag.
\<close>

theorem benefits_flag_and_variance_together:
  assumes "check_benefit_accruals ssum e = Inr e'"
  shows "\<exists>calls. benefit_accruals_calls ssum e = Inr calls \<and> e' = run calls e \<and>
     (tolerance < \<bar>fsub (payroll_total ssum Employer_Benefits (payroll_df e))
                        (gl_total ssum (\<lambda>a. a = ''6130'') Debit (gl_df e))\<bar> \<longrightarrow>
        (\<exists>f v. calls = [Append_Flag f, Append_Variance v] \<and>
           flags e' = flags e @ [f] \<and> variances e' = variances e @ [v] \<and>
           Category f = ''Benefits Accrual'' \<and>
           Type v = ''Employer Benefits Variance'' \<and> Severity v = ''High'' \<and>
           Variance v = round2 (fsub (payroll_total ssum Employer_Benefits (payroll_df e))
                                     (gl_total ssum (\<lambda>a. a = ''6130'') Debit (gl_df e))))) \<and>
     (\<bar>fsub (payroll_total ssum Employer_Benefits (payroll_df e))
            (gl_total ssum (\<lambda>a. a = ''6130'') Debit (gl_df e))\<bar> \<le> tolerance \<longrightarrow>
        calls = [] \<and> e' = e)"
proof -
  let ?d = "fsub (payroll_total ssum Employer_Benefits (payroll_df e))
                 (gl_total ssum (\<lambda>a. a = ''6130'') Debit (gl_df e))"
  let ?fs = "benefits_flags ssum (payroll_df e) (gl_df e)"
  let ?vs = "benefits_variances ssum (payroll_df e) (gl_df e)"
  let ?calls = "map Append_Flag ?fs @ map Append_Variance ?vs"
  note r = check_benefit_accruals_Inr [OF assms]
  let ?f = "\<lparr>Category = ''Benefits Accrual'',
             Issue = ''Missing or incomplete employer benefit accruals'',
             Impact = ''Understated expense by $'' @ format_2f \<bar>?d\<bar>,
             Action = ''Review and post missing benefit accrual entries''\<rparr>"
  let ?v = "variance_of ''Employer Benefits Variance''
              (payroll_total ssum Employer_Benefits (payroll_df e))
              (gl_total ssum (\<lambda>a. a = ''6130'') Debit (gl_df e)) ''High''"
  have big: "?fs = [?f] \<and> ?vs = [?v]" if "tolerance < \<bar>?d\<bar>"
    using that by (simp add: benefits_flags_def benefits_variances_def compare_def Let_def)
  have small: "?fs = [] \<and> ?vs = []" if "\<bar>?d\<bar> \<le> tolerance"
    using that by (simp add: benefits_flags_def benefits_variances_def compare_def Let_def)
  show ?thesis
  proof (intro exI [of _ ?calls] conjI impI)
    show "benefit_accruals_calls ssum e = Inr ?calls" by (rule r(1))
    show "e' = run ?calls e" by (simp add: r(2) run_flags_variances)
    show "\<exists>f v. ?calls = [Append_Flag f, Append_Variance v] \<and>
            flags e' = flags e @ [f] \<and> variances e' = variances e @ [v] \<and>
            Category f = ''Benefits Accrual'' \<and>
            Type v = ''Employer Benefits Variance'' \<and> Severity v = ''High'' \<and>
            Variance v = round2 ?d"
      if "tolerance < \<bar>?d\<bar>"
    proof (intro exI [of _ ?f] exI [of _ ?v] conjI)
      show "?calls = [Append_Flag ?f, Append_Variance ?v]"
        using big [OF that] by simp
      show "flags e' = flags e @ [?f]" using big [OF that] by (simp add: r(2))
      show "variances e' = variances e @ [?v]" using big [OF that] by (simp add: r(2))
    qed (simp_all add: variance_of_def)
    show "?calls = []" if "\<bar>?d\<bar> \<le> tolerance"
      using small [OF that] by simp
    show "e' = e" if "\<bar>?d\<bar> \<le> tolerance"
      using small [OF that] by (simp add: r(2))
  qed
qed

theorem benefits_flag_and_variance_together_witness:
  "tolerance = 5764607523034235 / 576460752303423488 \<and>
   check_benefit_accruals py_sum (init accrual_payroll accrual_gl) = Inr accrual_after \<and>
   fsub (payroll_total py_sum Employer_Benefits accrual_payroll)
        (gl_total py_sum (\<lambda>a. a = ''6130'') Debit accrual_gl) = 800 \<and>
   benefit_accruals_calls py_sum (init accrual_payroll accrual_gl) =
     Inr [Append_Flag accrual_flag, Append_Variance accrual_variance] \<and>
   accrual_after =
     run [Append_Flag accrual_flag, Append_Variance accrual_variance]
       (init accrual_payroll accrual_gl) \<and>
   Category accrual_flag = ''Benefits Accrual'' \<and>
   Type accrual_variance = ''Employer Benefits Variance'' \<and>
   Severity accrual_variance = ''High'' \<and> Variance accrual_variance = 800 \<and>
   check_benefit_accruals py_sum (init penny_payroll penny_gl) =
     Inr (init penny_payroll penny_gl
            \<lparr>variances := [penny_benefits_variance], flags := [penny_benefits_flag]\<rparr>) \<and>
   fsub (payroll_total py_sum Employer_Benefits penny_payroll)
        (gl_total py_sum (\<lambda>a. a = ''6130'') Debit penny_gl) = 87960930223 / 8796093022208 \<and>
   benefit_accruals_calls py_sum (init penny_payroll penny_gl) =
     Inr [Append_Flag penny_benefits_flag, Append_Variance penny_benefits_variance] \<and>
   Variance penny_benefits_variance = 5764607523034235 / 576460752303423488 \<and>
   Impact penny_benefits_flag = ''Understated expense by $0.01'' \<and>
   check_benefit_accruals py_sum (init cent_payroll cent_gl) = Inr (init cent_payroll cent_gl) \<and>
   fsub (payroll_total py_sum Employer_Benefits cent_payroll)
        (gl_total py_sum (\<lambda>a. a = ''6130'') Debit cent_gl) = 0 \<and>
   benefit_accruals_calls py_sum (init cent_payroll cent_gl) = Inr []"
  using benefits_flag_and_variance_together [OF accrual_check_benefit_accruals]
    benefits_flag_and_variance_together [OF penny_check_benefit_accruals]
    benefits_flag_and_variance_together [OF cent_check_benefit_accruals]
    accrual_check_benefit_accruals penny_check_benefit_accruals cent_check_benefit_accruals
  by (simp add: engine_defs accrual_defs penny_defs cent_payroll_def cent_gl_def
      payroll_total_def gl_total_def float_eval)

text \<open>
  C8 as stated fails. For a cost center with a payroll Gross\_Pay sum of 1017.82 and
  debits of 1017.81 on account 6100, which are exactly 0.01 apart and so do not differ by
  strictly more than 0.01, the cost-center balancing check appends a variance record: the
  float64 difference of the two amounts is 0.010000000000104592.
\<close>

theorem cost_center_counterexample:
  "(101782 / 100 - 101781 / 100 :: rat) = 1 / 100 \<and>
   map p_Cost_Center (rows penny_payroll) = [''CC1001''] \<and>
   map Gross_Pay (rows penny_payroll) = [fl (101782 / 100)] \<and>
   map g_Cost_Center (rows penny_gl) = [''CC1001'', ''CC1001''] \<and>
   map GL_Account (rows penny_gl) = [''6100'', ''6130''] \<and>
   map Debit (rows penny_gl) = [fl (101781 / 100), fl (101781 / 100)] \<and>
   validate_cost_center_balancing py_sum (init penny_payroll penny_gl) =
     Inr (init penny_payroll penny_gl\<lparr>variances := [penny_cost_center_variance]\<rparr>) \<and>
   Type penny_cost_center_variance = ''Cost Center CC1001 Variance''"
  using penny_balancing by (simp add: penny_defs)

text \<open>
  C8, amended. The cost-center balancing check appends no flag. Every variance record it
  appends has severity Medium and a type label that embeds a cost center of the payroll
  table. For every cost center it appends exactly one record labelled with that cost
  center when the cost center occurs in the payroll table and the absolute value of the
  float64 difference of its payroll Gross\_Pay sum and the debits on account 6100 for that
  cost center strictly exceeds the float64 value of 0.01, and no such record otherwise;
  in particular none for a cost center that occurs in the GL table only.
\<close>

theorem cost_center_one_medium_variance_each:
  assumes "validate_cost_center_balancing ssum e = Inr e'"
  shows "flags e' = flags e \<and>
     (\<exists>new. variances e' = variances e @ new \<and>
        (\<forall>v\<in>set new. Severity v = ''Medium'' \<and>
           (\<exists>cc\<in>set (map p_Cost_Center (rows (payroll_df e))).
              Type v = ''Cost Center '' @ cc @ '' Variance'')) \<and>
        (\<forall>cc. length (filter (\<lambda>v. Type v = ''Cost Center '' @ cc @ '' Variance'') new) =
           (if cc \<in> set (map p_Cost_Center (rows (payroll_df e))) \<and>
               tolerance < \<bar>fsub (cc_payroll_gross ssum cc (payroll_df e))
                                  (cc_gl_expense ssum cc (gl_df e))\<bar>
            then 1 else 0)))"
proof (intro exI conjI allI)
  let ?p = "payroll_df e" and ?g = "gl_df e"
  let ?new = "cost_center_variances ssum ?p ?g (unique (map p_Cost_Center (rows ?p)))"
  note e' = validate_cost_center_balancing_Inr [OF assms]
  show "flags e' = flags e" by (simp add: e')
  show "variances e' = variances e @ ?new" by (simp add: e')
  show "\<forall>v\<in>set ?new. Severity v = ''Medium'' \<and>
          (\<exists>cc\<in>set (map p_Cost_Center (rows ?p)).
             Type v = ''Cost Center '' @ cc @ '' Variance'')"
    by (fastforce simp: set_cost_center_variances variance_of_def cost_center_label_def)
  fix cc
  show "length (filter (\<lambda>v. Type v = ''Cost Center '' @ cc @ '' Variance'') ?new) =
          (if cc \<in> set (map p_Cost_Center (rows ?p)) \<and>
              tolerance < \<bar>fsub (cc_payroll_gross ssum cc ?p) (cc_gl_expense ssum cc ?g)\<bar>
           then 1 else 0)"
    using length_filter_cost_center_variances
      [of "unique (map p_Cost_Center (rows ?p))" cc ssum ?p ?g]
    by (simp add: cost_center_label_def)
qed

theorem cost_center_one_medium_variance_each_witness:
  "validate_cost_center_balancing py_sum (init scenario_c_payroll scenario_c_gl) =
     Inr (init scenario_c_payroll scenario_c_gl\<lparr>variances := scenario_c_variances\<rparr>) \<and>
   cc_payroll_gross py_sum ''CC1'' scenario_c_payroll = 5000 \<and>
   cc_gl_expense py_sum ''CC1'' scenario_c_gl = 5000 \<and>
   cc_payroll_gross py_sum ''CC2'' scenario_c_payroll = 10000 \<and>
   cc_gl_expense py_sum ''CC2'' scenario_c_gl = 9000 \<and>
   cc_payroll_gross py_sum ''CC3'' scenario_c_payroll = 0 \<and>
   cc_gl_expense py_sum ''CC3'' scenario_c_gl = 500 \<and>
   ''CC3'' \<notin> set (map p_Cost_Center (rows scenario_c_payroll)) \<and>
   map Type scenario_c_variances = [''Cost Center CC2 Variance''] \<and>
   map Severity scenario_c_variances = [''Medium''] \<and>
   map Variance scenario_c_variances = [1000] \<and>
   validate_cost_center_balancing py_sum (init penny_payroll penny_gl) =
     Inr (init penny_payroll penny_gl\<lparr>variances := [penny_cost_center_variance]\<rparr>) \<and>
   fsub (cc_payroll_gross py_sum ''CC1001'' penny_payroll)
        (cc_gl_expense py_sum ''CC1001'' penny_gl) = 87960930223 / 8796093022208 \<and>
   tolerance = 5764607523034235 / 576460752303423488"
  using cost_center_one_medium_variance_each [OF scenario_c_balancing]
    cost_center_one_medium_variance_each [OF penny_balancing]
    scenario_c_balancing penny_balancing
  by (simp add: cc_payroll_gross_def cc_gl_expense_def scenario_c_payroll_def
      scenario_c_gl_def scenario_c_variances_def penny_defs float_eval)


end
